theory Spec2Isabelle
  imports Main
begin

section \<open>Errors, results and the database access port\<close>

text \<open>
  Go errors as values. \<open>New m\<close> is \<open>errors.New(m)\<close>; \<open>Wrap e m\<close> is
  \<open>errors.Wrap(e, m)\<close> of github.com/pkg/errors, whose message is the label, a colon
  and the message of the cause.
\<close>

datatype error = New string | Wrap error string

fun Error :: "error \<Rightarrow> string" where
  "Error (New m) = m"
| "Error (Wrap e m) = m @ '': '' @ Error e"

text \<open>
  A reconciler method either returns its result together with an optional error (Go's
  pair of return values), or panics on a nil pointer dereference before returning.
\<close>

datatype 'a outcome = Panic | Return 'a "error option"

text \<open>
  The database access port. A cursor is the list of rows still to be scanned; a row is a
  list of typed cells. Every call made through the port is recorded, in order; the port's
  answer may depend on the calls made before (the database is stateful).
\<close>

datatype cell = Null | Text string | Boolean bool | TextList "string list" | TextMap "(string \<times> string) list"

type_synonym row = "cell list"
type_synonym Iter = "row list"

datatype call = ExecCall string | QueryCall string "string list"

record DB =
  ExecFunc :: "call list \<Rightarrow> string \<Rightarrow> error option"
  QueryFunc :: "call list \<Rightarrow> string \<Rightarrow> string list \<Rightarrow> error + Iter"
  GetConnectionDetailsFunc :: "string \<Rightarrow> string \<Rightarrow> (string \<times> string) list"

definition Exec :: "DB \<Rightarrow> call list \<Rightarrow> string \<Rightarrow> error option \<times> call list" where
  "Exec db log query = (ExecFunc db log query, log @ [ExecCall query])"

definition Query :: "DB \<Rightarrow> call list \<Rightarrow> string \<Rightarrow> string list \<Rightarrow> (error + Iter) \<times> call list" where
  "Query db log query args = (QueryFunc db log query args, log @ [QueryCall query args])"

text \<open>
  \<open>Scan(iter, dest...)\<close> moves the next row into the destinations and answers true; it
  answers false when the cursor is exhausted or the row does not fit the destinations.
  A null cell fits every destination: it leaves the zero value in a plain destination
  (the empty string, false, the empty list or map) and the nil pointer in a destination
  that is itself a pointer. First one function per type of destination, then one per
  shape of destinations used by the reconcilers.
\<close>

fun scan_string :: "cell \<Rightarrow> string option" where
  "scan_string (Text s) = Some s"
| "scan_string Null = Some []"
| "scan_string _ = None"

fun scan_bool :: "cell \<Rightarrow> bool option" where
  "scan_bool (Boolean b) = Some b"
| "scan_bool Null = Some False"
| "scan_bool _ = None"

fun scan_bool_pointer :: "cell \<Rightarrow> bool option option" where
  "scan_bool_pointer (Boolean b) = Some (Some b)"
| "scan_bool_pointer Null = Some None"
| "scan_bool_pointer _ = None"

fun scan_strings :: "cell \<Rightarrow> string list option" where
  "scan_strings (TextList ps) = Some ps"
| "scan_strings Null = Some []"
| "scan_strings _ = None"

fun scan_map :: "cell \<Rightarrow> (string \<times> string) list option" where
  "scan_map (TextMap m) = Some m"
| "scan_map Null = Some []"
| "scan_map _ = None"

definition ScanString :: "Iter \<Rightarrow> string option" where
  "ScanString iter = (case iter of [c] # _ \<Rightarrow> scan_string c | _ \<Rightarrow> None)"

text \<open>
  The second destination of the keyspace details is \<open>&observed.DurableWrites\<close>, a
  pointer to a pointer: what is scanned is the pointer, nil for a null cell.
\<close>

definition ScanMapBool :: "Iter \<Rightarrow> ((string \<times> string) list \<times> bool option) option" where
  "ScanMapBool iter =
     (case iter of
        [m, b] # _ \<Rightarrow>
          (case scan_map m of
             None \<Rightarrow> None
           | Some replicationMap \<Rightarrow>
               (case scan_bool_pointer b of
                  None \<Rightarrow> None
                | Some durableWrites \<Rightarrow> Some (replicationMap, durableWrites)))
      | _ \<Rightarrow> None)"

definition ScanBoolBool :: "Iter \<Rightarrow> (bool \<times> bool) option" where
  "ScanBoolBool iter =
     (case iter of
        [a, b] # _ \<Rightarrow>
          (case scan_bool a of
             None \<Rightarrow> None
           | Some isSuperuser \<Rightarrow>
               (case scan_bool b of
                  None \<Rightarrow> None
                | Some canLogin \<Rightarrow> Some (isSuperuser, canLogin)))
      | _ \<Rightarrow> None)"

definition ScanStrings :: "row \<Rightarrow> string list option" where
  "ScanStrings r = (case r of [c] \<Rightarrow> scan_strings c | _ \<Rightarrow> None)"

section \<open>Managed resources\<close>

text \<open>
  A status condition without its timestamp, and \<open>SetConditions\<close> of the crossplane
  runtime for one condition: every condition of the same type is replaced by it; when
  there is none of that type, it is appended.
\<close>

record Condition =
  cond_Type :: string
  cond_Status :: string
  cond_Reason :: string

definition Available :: Condition where
  "Available = \<lparr>cond_Type = ''Ready'', cond_Status = ''True'', cond_Reason = ''Available''\<rparr>"

definition SetConditions :: "Condition \<Rightarrow> Condition list \<Rightarrow> Condition list" where
  "SetConditions c conditions =
     (if list_ex (\<lambda>existing. cond_Type existing = cond_Type c) conditions
      then map (\<lambda>existing. if cond_Type existing = cond_Type c then c else existing) conditions
      else conditions @ [c])"

record KeyspaceParameters =
  ReplicationClass :: "string option"
  ReplicationFactor :: "int option"
  DurableWrites :: "bool option"

record Keyspace =
  ks_Annotations :: "(string \<times> string) list"
  ks_ForProvider :: KeyspaceParameters
  ks_Conditions :: "Condition list"

record RolePrivilege =
  SuperUser :: "bool option"
  Login :: "bool option"

record Role =
  role_Annotations :: "(string \<times> string) list"
  role_Privileges :: RolePrivilege
  role_Conditions :: "Condition list"

record GrantParameters =
  gp_Privileges :: "string list"
  gp_Role :: "string option"
  gp_Keyspace :: "string option"

record Grant =
  grant_ForProvider :: GrantParameters
  grant_AtProvider_Privileges :: "string list"
  grant_Conditions :: "Condition list"

text \<open>
  The value of the interface \<open>resource.Managed\<close> handed to a reconciler: the nil
  interface, one of the three kinds of this provider, or an object of another kind.
\<close>

datatype Managed = NilManaged | KeyspaceCR Keyspace | RoleCR Role | GrantCR Grant | OtherCR string

definition isKeyspace :: "Managed \<Rightarrow> bool" where
  "isKeyspace mg = (case mg of KeyspaceCR _ \<Rightarrow> True | _ \<Rightarrow> False)"

definition isRole :: "Managed \<Rightarrow> bool" where
  "isRole mg = (case mg of RoleCR _ \<Rightarrow> True | _ \<Rightarrow> False)"

definition isGrant :: "Managed \<Rightarrow> bool" where
  "isGrant mg = (case mg of GrantCR _ \<Rightarrow> True | _ \<Rightarrow> False)"

text \<open>\<open>meta.GetExternalName\<close>: the external-name annotation, empty when absent.\<close>

definition GetExternalName :: "(string \<times> string) list \<Rightarrow> string" where
  "GetExternalName annotations =
     (case map_of annotations ''crossplane.io/external-name'' of Some n \<Rightarrow> n | None \<Rightarrow> [])"

record ExternalObservation =
  ResourceExists :: bool
  ResourceUpToDate :: bool
  ResourceLateInitialized :: bool

definition zeroObservation :: ExternalObservation where
  "zeroObservation =
     \<lparr>ResourceExists = False, ResourceUpToDate = False, ResourceLateInitialized = False\<rparr>"

type_synonym ConnectionDetails = "(string \<times> string) list"

datatype ExternalCreation = ExternalCreation ConnectionDetails
datatype ExternalUpdate = ExternalUpdate ConnectionDetails

section \<open>String helpers of the Go standard library\<close>

text \<open>\<open>strings.TrimPrefix\<close>.\<close>

fun TrimPrefix :: "string \<Rightarrow> string \<Rightarrow> string" where
  "TrimPrefix s prefix =
     (if take (length prefix) s = prefix then drop (length prefix) s else s)"

text \<open>\<open>strconv.FormatBool\<close>, which is also what the verb \<open>%t\<close> prints.\<close>

definition FormatBool :: "bool \<Rightarrow> string" where
  "FormatBool b = (if b then ''true'' else ''false'')"

text \<open>\<open>strconv.Itoa\<close>: decimal digits, with a minus sign for a negative number.\<close>

definition digit_char :: "nat \<Rightarrow> char" where
  "digit_char d = char_of (48 + d)"

function itoa_nat :: "nat \<Rightarrow> string" where
  "itoa_nat n = (if n < 10 then [digit_char n] else itoa_nat (n div 10) @ [digit_char (n mod 10)])"
  by pat_completeness auto
termination
  by (relation "measure (\<lambda>n. n)") auto

declare itoa_nat.simps [simp del]

definition Itoa :: "int \<Rightarrow> string" where
  "Itoa i = (if i < 0 then CHR ''-'' # itoa_nat (nat (- i)) else itoa_nat (nat i))"

text \<open>
  \<open>strconv.Atoi\<close> on a 64-bit platform, with its error dropped, as the caller drops
  it. After an optional sign the digits are read from the left: a character that is not a
  decimal digit is a syntax error and gives 0; a value beyond 64 unsigned bits is a range
  error, found before the characters after it are looked at. A range error, or a value
  beyond the signed 64-bit range, gives the nearest bound of that range.
\<close>

definition is_digit :: "char \<Rightarrow> bool" where
  "is_digit c = ((48::nat) \<le> of_char c \<and> (of_char c :: nat) \<le> 57)"

datatype parsed = SyntaxError | RangeError | Parsed nat

fun ParseUint :: "nat \<Rightarrow> string \<Rightarrow> parsed" where
  "ParseUint n [] = Parsed n"
| "ParseUint n (c # cs) =
     (if \<not> is_digit c then SyntaxError
      else if 10 * n + ((of_char c :: nat) - 48) > 2 ^ 64 - 1 then RangeError
      else ParseUint (10 * n + ((of_char c :: nat) - 48)) cs)"

definition Atoi :: "string \<Rightarrow> int" where
  "Atoi s =
     (let neg = (s \<noteq> [] \<and> hd s = CHR ''-'');
          ds = (if s \<noteq> [] \<and> (hd s = CHR ''-'' \<or> hd s = CHR ''+'') then tl s else s)
      in if ds = [] then 0
         else (case ParseUint 0 ds of
                 SyntaxError \<Rightarrow> 0
               | RangeError \<Rightarrow> (if neg then - (2 ^ 63) else 2 ^ 63 - 1)
               | Parsed un \<Rightarrow>
                   (if \<not> neg \<and> un \<ge> 2 ^ 63 then 2 ^ 63 - 1
                    else if neg \<and> un > 2 ^ 63 then - (2 ^ 63)
                    else if neg then - int un else int un)))"

text \<open>Modelled from the spec: \<open>cassandra.QuoteIdentifier\<close> lives in the client package
  internal/clients/cassandra, whose source is not part of the sources at hand. The spec
  says that identifiers are always double-quoted and that quoting escapes the name; it
  does not give the escaping rule, which is the parameter \<open>escape\<close>.
\<close>

definition QuoteIdentifier :: "(string \<Rightarrow> string) \<Rightarrow> string \<Rightarrow> string" where
  "QuoteIdentifier escape identifier = [CHR 0x22] @ escape identifier @ [CHR 0x22]"

section \<open>The Keyspace reconciler\<close>

definition errNotKeyspace :: string where
  "errNotKeyspace = ''managed resource is not a Keyspace custom resource''"

definition errSelectKeyspace :: string where
  "errSelectKeyspace = ''cannot select keyspace''"

definition errCreateKeyspace :: string where
  "errCreateKeyspace = ''cannot create keyspace''"

definition errUpdateKeyspace :: string where
  "errUpdateKeyspace = ''cannot update keyspace''"

definition errDropKeyspace :: string where
  "errDropKeyspace = ''cannot drop keyspace''"

definition defaultStrategy :: string where
  "defaultStrategy = ''SimpleStrategy''"

definition defaultReplicas :: int where
  "defaultReplicas = 1"

definition keyspace_existsQuery :: string where
  "keyspace_existsQuery = ''SELECT keyspace_name FROM system_schema.keyspaces WHERE keyspace_name = ?''"

definition keyspace_detailsQuery :: string where
  "keyspace_detailsQuery =
     ''SELECT replication, durable_writes FROM system_schema.keyspaces WHERE keyspace_name = ?''"

definition keyspace_upToDate :: "KeyspaceParameters \<Rightarrow> KeyspaceParameters \<Rightarrow> bool" where
  "keyspace_upToDate observed desired =
     (if ReplicationClass observed = None \<or> ReplicationClass desired = None
           \<or> the (ReplicationClass observed) \<noteq> the (ReplicationClass desired) then False
      else if ReplicationFactor observed = None \<or> ReplicationFactor desired = None
           \<or> the (ReplicationFactor observed) \<noteq> the (ReplicationFactor desired) then False
      else if DurableWrites observed = None \<or> DurableWrites desired = None
           \<or> the (DurableWrites observed) \<noteq> the (DurableWrites desired) then False
      else True)"

text \<open>
  \<open>lateInit\<close> writes into the desired parameters it is given a pointer to; the model
  returns the flag together with the parameters as they are afterwards.
\<close>

definition keyspace_lateInit :: "KeyspaceParameters \<Rightarrow> KeyspaceParameters \<Rightarrow> bool \<times> KeyspaceParameters" where
  "keyspace_lateInit observed desired =
     (let (li1, d1) = (if ReplicationClass desired = None
                       then (True, desired\<lparr>ReplicationClass := ReplicationClass observed\<rparr>)
                       else (False, desired));
          (li2, d2) = (if ReplicationFactor d1 = None
                       then (True, d1\<lparr>ReplicationFactor := ReplicationFactor observed\<rparr>)
                       else (li1, d1));
          (li3, d3) = (if DurableWrites d2 = None
                       then (True, d2\<lparr>DurableWrites := DurableWrites observed\<rparr>)
                       else (li2, d2))
      in (li3, d3))"

text \<open>
  The observed parameters after the scan: class and factor are pointers to the empty
  string and to 0, overwritten from the replication map when it has the key; the
  durable-writes pointer is the one the scan left, nil for a null cell.
\<close>

definition keyspace_observed :: "(string \<times> string) list \<Rightarrow> bool option \<Rightarrow> KeyspaceParameters" where
  "keyspace_observed replicationMap durableWrites =
     \<lparr>ReplicationClass =
        Some (case map_of replicationMap ''class'' of
                Some rc \<Rightarrow> TrimPrefix rc ''org.apache.cassandra.locator.''
              | None \<Rightarrow> []),
      ReplicationFactor =
        Some (case map_of replicationMap ''replication_factor'' of
                Some rf \<Rightarrow> Atoi rf
              | None \<Rightarrow> 0),
      DurableWrites = durableWrites\<rparr>"

text \<open>
  \<open>Observe\<close>. The deferred closing of the cursors assigns to a local variable only and
  does not change what is returned. In the returned literal \<open>lateInit\<close> is called before
  \<open>upToDate\<close>.
\<close>

definition keyspace_Observe ::
  "DB \<Rightarrow> Managed \<Rightarrow> call list \<Rightarrow> ExternalObservation outcome \<times> Managed \<times> call list" where
  "keyspace_Observe db mg log =
     (case mg of
        KeyspaceCR cr \<Rightarrow>
          (let (r1, log1) = Query db log keyspace_existsQuery [GetExternalName (ks_Annotations cr)]
           in case r1 of
                Inl err \<Rightarrow>
                  (Return zeroObservation (Some (Wrap err ''failed to check keyspace existence'')),
                   mg, log1)
              | Inr existsIter \<Rightarrow>
                  (case ScanString existsIter of
                     None \<Rightarrow>
                       (Return \<lparr>ResourceExists = False, ResourceUpToDate = False,
                                ResourceLateInitialized = False\<rparr> None, mg, log1)
                   | Some keyspaceName \<Rightarrow>
                       (let (r2, log2) =
                              Query db log1 keyspace_detailsQuery [GetExternalName (ks_Annotations cr)]
                        in case r2 of
                             Inl err \<Rightarrow>
                               (Return zeroObservation (Some (Wrap err errSelectKeyspace)), mg, log2)
                           | Inr detailsIter \<Rightarrow>
                               (case ScanMapBool detailsIter of
                                  None \<Rightarrow>
                                    (Return zeroObservation
                                       (Some (New ''failed to scan keyspace attributes'')), mg, log2)
                                | Some (replicationMap, durableWrites) \<Rightarrow>
                                    (let observed = keyspace_observed replicationMap durableWrites;
                                         cr1 = cr\<lparr>ks_Conditions := SetConditions Available (ks_Conditions cr)\<rparr>;
                                         (li, desired) = keyspace_lateInit observed (ks_ForProvider cr1);
                                         utd = keyspace_upToDate observed desired
                                     in (Return \<lparr>ResourceExists = True, ResourceUpToDate = utd,
                                                 ResourceLateInitialized = li\<rparr> None,
                                         KeyspaceCR (cr1\<lparr>ks_ForProvider := desired\<rparr>), log2))))))
      | _ \<Rightarrow> (Return zeroObservation (Some (New errNotKeyspace)), mg, log))"

text \<open>The replication and durable-writes clause that Create and Update both append.\<close>

definition keyspace_clause :: "KeyspaceParameters \<Rightarrow> string" where
  \<open>keyspace_clause params =
     (let strategy = (case ReplicationClass params of Some c \<Rightarrow> c | None \<Rightarrow> defaultStrategy);
          replicationFactor = (case ReplicationFactor params of Some n \<Rightarrow> n | None \<Rightarrow> defaultReplicas);
          durableWrites = (case DurableWrites params of Some b \<Rightarrow> b | None \<Rightarrow> True)
      in '' WITH replication = {'class': '' @ [CHR 0x27] @ strategy @ [CHR 0x27]
           @ '', 'replication_factor': '' @ Itoa replicationFactor
           @ ''} AND durable_writes = '' @ FormatBool durableWrites)\<close>

definition keyspace_Create ::
  "(string \<Rightarrow> string) \<Rightarrow> DB \<Rightarrow> Managed \<Rightarrow> call list \<Rightarrow> ExternalCreation outcome \<times> Managed \<times> call list" where
  "keyspace_Create escape db mg log =
     (case mg of
        KeyspaceCR cr \<Rightarrow>
          (let query = ''CREATE KEYSPACE IF NOT EXISTS ''
                       @ QuoteIdentifier escape (GetExternalName (ks_Annotations cr))
                       @ keyspace_clause (ks_ForProvider cr);
               (e, log1) = Exec db log query
           in case e of
                Some err \<Rightarrow>
                  (Return (ExternalCreation [])
                     (Some (New (errCreateKeyspace @ '': '' @ Error err))), mg, log1)
              | None \<Rightarrow> (Return (ExternalCreation []) None, mg, log1))
      | _ \<Rightarrow> (Return (ExternalCreation []) (Some (New errNotKeyspace)), mg, log))"

definition keyspace_Update ::
  "(string \<Rightarrow> string) \<Rightarrow> DB \<Rightarrow> Managed \<Rightarrow> call list \<Rightarrow> ExternalUpdate outcome \<times> Managed \<times> call list" where
  "keyspace_Update escape db mg log =
     (case mg of
        KeyspaceCR cr \<Rightarrow>
          (let query = ''ALTER KEYSPACE ''
                       @ QuoteIdentifier escape (GetExternalName (ks_Annotations cr))
                       @ keyspace_clause (ks_ForProvider cr);
               (e, log1) = Exec db log query
           in case e of
                Some err \<Rightarrow>
                  (Return (ExternalUpdate [])
                     (Some (New (errUpdateKeyspace @ '': '' @ Error err))), mg, log1)
              | None \<Rightarrow> (Return (ExternalUpdate []) None, mg, log1))
      | _ \<Rightarrow> (Return (ExternalUpdate []) (Some (New errNotKeyspace)), mg, log))"

definition keyspace_Delete ::
  "(string \<Rightarrow> string) \<Rightarrow> DB \<Rightarrow> Managed \<Rightarrow> call list \<Rightarrow> unit outcome \<times> Managed \<times> call list" where
  "keyspace_Delete escape db mg log =
     (case mg of
        KeyspaceCR cr \<Rightarrow>
          (let query = ''DROP KEYSPACE IF EXISTS ''
                       @ QuoteIdentifier escape (GetExternalName (ks_Annotations cr));
               (e, log1) = Exec db log query
           in case e of
                Some err \<Rightarrow> (Return () (Some (New (errDropKeyspace @ '': '' @ Error err))), mg, log1)
              | None \<Rightarrow> (Return () None, mg, log1))
      | _ \<Rightarrow> (Return () (Some (New errNotKeyspace)), mg, log))"

section \<open>The Role reconciler\<close>

definition errNotRole :: string where
  "errNotRole = ''managed resource is not a Role custom resource''"

definition errSelectRole :: string where
  "errSelectRole = ''cannot select role''"

definition errCreateRole :: string where
  "errCreateRole = ''cannot create role''"

definition errUpdateRole :: string where
  "errUpdateRole = ''cannot update role''"

definition errDropRole :: string where
  "errDropRole = ''cannot drop role''"

definition role_query :: string where
  "role_query = ''SELECT is_superuser, can_login FROM system_auth.roles WHERE role = ?''"

definition role_upToDate :: "RolePrivilege \<Rightarrow> RolePrivilege \<Rightarrow> bool" where
  "role_upToDate observed desired =
     (if SuperUser observed = None \<or> SuperUser desired = None
           \<or> the (SuperUser observed) \<noteq> the (SuperUser desired) then False
      else if Login observed = None \<or> Login desired = None
           \<or> the (Login observed) \<noteq> the (Login desired) then False
      else True)"

definition role_lateInit :: "RolePrivilege \<Rightarrow> RolePrivilege \<Rightarrow> bool \<times> RolePrivilege" where
  "role_lateInit observed desired =
     (let (li1, d1) = (if SuperUser desired = None
                       then (True, desired\<lparr>SuperUser := SuperUser observed\<rparr>)
                       else (False, desired));
          (li2, d2) = (if Login d1 = None
                       then (True, d1\<lparr>Login := Login observed\<rparr>)
                       else (li1, d1))
      in (li2, d2))"

definition role_Observe ::
  "DB \<Rightarrow> Managed \<Rightarrow> call list \<Rightarrow> ExternalObservation outcome \<times> Managed \<times> call list" where
  "role_Observe db mg log =
     (case mg of
        RoleCR cr \<Rightarrow>
          (let (r, log1) = Query db log role_query [GetExternalName (role_Annotations cr)]
           in case r of
                Inl err \<Rightarrow> (Return zeroObservation (Some (Wrap err errSelectRole)), mg, log1)
              | Inr iter \<Rightarrow>
                  (case ScanBoolBool iter of
                     None \<Rightarrow>
                       (Return \<lparr>ResourceExists = False, ResourceUpToDate = False,
                                ResourceLateInitialized = False\<rparr> None, mg, log1)
                   | Some (isSuperuser, canLogin) \<Rightarrow>
                       (let observed = \<lparr>SuperUser = Some isSuperuser, Login = Some canLogin\<rparr>;
                            cr1 = cr\<lparr>role_Conditions := SetConditions Available (role_Conditions cr)\<rparr>;
                            (li, desired) = role_lateInit observed (role_Privileges cr1);
                            utd = role_upToDate observed desired
                        in (Return \<lparr>ResourceExists = True, ResourceUpToDate = utd,
                                    ResourceLateInitialized = li\<rparr> None,
                            RoleCR (cr1\<lparr>role_Privileges := desired\<rparr>), log1))))
      | _ \<Rightarrow> (Return zeroObservation (Some (New errNotRole)), mg, log))"

text \<open>
  \<open>Create\<close> takes what the password generator of the crossplane runtime answered:
  an error or the password.
\<close>

definition role_Create ::
  "(string \<Rightarrow> string) \<Rightarrow> error + string \<Rightarrow> DB \<Rightarrow> Managed \<Rightarrow> call list
     \<Rightarrow> ExternalCreation outcome \<times> Managed \<times> call list" where
  "role_Create escape generated db mg log =
     (case mg of
        RoleCR cr \<Rightarrow>
          (case generated of
             Inl err \<Rightarrow> (Return (ExternalCreation []) (Some err), mg, log)
           | Inr pw \<Rightarrow>
               (let params = role_Privileges cr;
                    query = ''CREATE ROLE IF NOT EXISTS ''
                            @ QuoteIdentifier escape (GetExternalName (role_Annotations cr))
                            @ '' WITH SUPERUSER = ''
                            @ FormatBool (SuperUser params \<noteq> None \<and> the (SuperUser params))
                            @ '' AND LOGIN = ''
                            @ FormatBool (Login params \<noteq> None \<and> the (Login params))
                            @ '' AND PASSWORD = '' @ [CHR 0x27] @ pw @ [CHR 0x27];
                    (e, log1) = Exec db log query
                in case e of
                     Some err \<Rightarrow>
                       (Return (ExternalCreation [])
                          (Some (New (errCreateRole @ '': '' @ Error err))), mg, log1)
                   | None \<Rightarrow>
                       (Return (ExternalCreation
                          (GetConnectionDetailsFunc db (GetExternalName (role_Annotations cr)) pw))
                          None, mg, log1)))
      | _ \<Rightarrow> (Return (ExternalCreation []) (Some (New errNotRole)), mg, log))"

definition role_Update ::
  "(string \<Rightarrow> string) \<Rightarrow> DB \<Rightarrow> Managed \<Rightarrow> call list \<Rightarrow> ExternalUpdate outcome \<times> Managed \<times> call list" where
  "role_Update escape db mg log =
     (case mg of
        RoleCR cr \<Rightarrow>
          (let params = role_Privileges cr;
               query = ''ALTER ROLE ''
                       @ QuoteIdentifier escape (GetExternalName (role_Annotations cr))
                       @ '' WITH SUPERUSER = ''
                       @ FormatBool (SuperUser params \<noteq> None \<and> the (SuperUser params))
                       @ '' AND LOGIN = ''
                       @ FormatBool (Login params \<noteq> None \<and> the (Login params));
               (e, log1) = Exec db log query
           in case e of
                Some err \<Rightarrow>
                  (Return (ExternalUpdate []) (Some (New (errUpdateRole @ '': '' @ Error err))), mg, log1)
              | None \<Rightarrow> (Return (ExternalUpdate []) None, mg, log1))
      | _ \<Rightarrow> (Return (ExternalUpdate []) (Some (New errNotRole)), mg, log))"

definition role_Delete ::
  "(string \<Rightarrow> string) \<Rightarrow> DB \<Rightarrow> Managed \<Rightarrow> call list \<Rightarrow> unit outcome \<times> Managed \<times> call list" where
  "role_Delete escape db mg log =
     (case mg of
        RoleCR cr \<Rightarrow>
          (let query = ''DROP ROLE IF EXISTS ''
                       @ QuoteIdentifier escape (GetExternalName (role_Annotations cr));
               (e, log1) = Exec db log query
           in case e of
                Some err \<Rightarrow> (Return () (Some (New (errDropRole @ '': '' @ Error err))), mg, log1)
              | None \<Rightarrow> (Return () None, mg, log1))
      | _ \<Rightarrow> (Return () (Some (New errNotRole)), mg, log))"

section \<open>The Grant reconciler\<close>

definition errNotGrant :: string where
  "errNotGrant = ''managed resource is not a Grant custom resource''"

definition errGrantCreate :: string where
  "errGrantCreate = ''cannot create grant''"

definition errGrantDelete :: string where
  "errGrantDelete = ''cannot delete grant''"

definition errGrantObserve :: string where
  "errGrantObserve = ''cannot observe grant''"

definition replaceUnderscoreWithSpace :: "string list \<Rightarrow> string list" where
  "replaceUnderscoreWithSpace privileges =
     map (map (\<lambda>c. if c = CHR ''_'' then CHR '' '' else c)) privileges"

text \<open>
  A Go \<open>map[string]bool\<close>: reading a key that is absent gives false; \<open>set_true\<close> is
  the loop that stores true under every string of a list.
\<close>

definition lookup :: "(string \<rightharpoonup> bool) \<Rightarrow> string \<Rightarrow> bool" where
  "lookup m p = (case m p of Some b \<Rightarrow> b | None \<Rightarrow> False)"

fun set_true :: "(string \<rightharpoonup> bool) \<Rightarrow> string list \<Rightarrow> (string \<rightharpoonup> bool)" where
  "set_true m [] = m"
| "set_true m (p # ps) = set_true (m(p \<mapsto> True)) ps"

text \<open>
  Go visits the keys of a map in an order the runtime chooses: each key once, in any
  order. A \<open>range\<close> over a map takes that order as an argument.
\<close>

definition range_order :: "(string \<rightharpoonup> bool) \<Rightarrow> string list \<Rightarrow> bool" where
  "range_order m order = (distinct order \<and> set order = dom m)"

definition grant_query :: "string \<Rightarrow> string" where
  "grant_query keyspace =
     ''SELECT permissions FROM system_auth.role_permissions WHERE role = ? AND resource = ''
     @ [CHR 0x27] @ ''data/'' @ keyspace @ [CHR 0x27]"

definition grantStatement :: "(string \<Rightarrow> string) \<Rightarrow> string \<Rightarrow> string \<Rightarrow> string \<Rightarrow> string" where
  "grantStatement escape keyspace role privilege =
     ''GRANT '' @ privilege @ '' ON KEYSPACE '' @ QuoteIdentifier escape keyspace
     @ '' TO '' @ QuoteIdentifier escape role"

definition revokeStatement :: "(string \<Rightarrow> string) \<Rightarrow> string \<Rightarrow> string \<Rightarrow> string \<Rightarrow> string" where
  "revokeStatement escape keyspace role privilege =
     ''REVOKE '' @ privilege @ '' ON KEYSPACE '' @ QuoteIdentifier escape keyspace
     @ '' FROM '' @ QuoteIdentifier escape role"

text \<open>The loop of Observe over the rows of the cursor, filling the observed permissions.\<close>

fun scan_permissions :: "Iter \<Rightarrow> (string \<rightharpoonup> bool) \<Rightarrow> (string \<rightharpoonup> bool)" where
  "scan_permissions [] observedPermissions = observedPermissions"
| "scan_permissions (r # rs) observedPermissions =
     (case ScanStrings r of
        None \<Rightarrow> observedPermissions
      | Some permissions \<Rightarrow> scan_permissions rs (set_true observedPermissions permissions))"

text \<open>
  The loop of Observe over the desired permissions, in the order the runtime visits
  them; the state is the pair of \<open>upToDate\<close> and \<open>resourceExists\<close>. It leaves at the
  first desired permission that was not observed.
\<close>

fun range_desired :: "(string \<rightharpoonup> bool) \<Rightarrow> string list \<Rightarrow> bool \<times> bool \<Rightarrow> bool \<times> bool" where
  "range_desired observedPermissions [] (upToDate, resourceExists) = (upToDate, resourceExists)"
| "range_desired observedPermissions (p # ps) (upToDate, resourceExists) =
     (if \<not> lookup observedPermissions p then (False, resourceExists)
      else range_desired observedPermissions ps (upToDate, True))"

text \<open>The loop of Observe over the privileges recorded in the status.\<close>

fun check_atProvider :: "(string \<rightharpoonup> bool) \<Rightarrow> string list \<Rightarrow> bool \<Rightarrow> bool" where
  "check_atProvider desiredPermissions [] upToDate = upToDate"
| "check_atProvider desiredPermissions (p # ps) upToDate =
     check_atProvider desiredPermissions ps
       (if \<not> lookup desiredPermissions p then False else upToDate)"

definition grant_Observe ::
  "DB \<Rightarrow> string list \<Rightarrow> Managed \<Rightarrow> call list \<Rightarrow> ExternalObservation outcome \<times> Managed \<times> call list" where
  "grant_Observe db order mg log =
     (case mg of
        GrantCR cr \<Rightarrow>
          (case gp_Role (grant_ForProvider cr) of
             None \<Rightarrow> (Panic, mg, log)
           | Some role \<Rightarrow>
               (case gp_Keyspace (grant_ForProvider cr) of
                  None \<Rightarrow> (Panic, mg, log)
                | Some keyspace \<Rightarrow>
                    (let (r, log1) = Query db log (grant_query keyspace) [role]
                     in case r of
                          Inl err \<Rightarrow> (Return zeroObservation (Some (Wrap err errGrantObserve)), mg, log1)
                        | Inr iter \<Rightarrow>
                            (let observedPermissions = scan_permissions iter Map.empty;
                                 privileges = replaceUnderscoreWithSpace (gp_Privileges (grant_ForProvider cr));
                                 desiredPermissions = set_true Map.empty privileges;
                                 (upToDate0, resourceExists) =
                                    range_desired observedPermissions order (True, False);
                                 upToDate = check_atProvider desiredPermissions
                                              (grant_AtProvider_Privileges cr) upToDate0;
                                 cr1 = (if upToDate then cr\<lparr>grant_AtProvider_Privileges := privileges\<rparr> else cr);
                                 cr2 = (if resourceExists
                                        then cr1\<lparr>grant_Conditions := SetConditions Available (grant_Conditions cr1)\<rparr>
                                        else cr1)
                             in (Return \<lparr>ResourceExists = resourceExists, ResourceUpToDate = upToDate,
                                         ResourceLateInitialized = False\<rparr> None,
                                 GrantCR cr2, log1)))))
      | _ \<Rightarrow> (Return zeroObservation (Some (New errNotGrant)), mg, log))"

text \<open>The loop of Create: one GRANT for each privilege, leaving at the first error.\<close>

fun create_loop ::
  "(string \<Rightarrow> string) \<Rightarrow> DB \<Rightarrow> string \<Rightarrow> string \<Rightarrow> string list \<Rightarrow> call list \<Rightarrow> error option \<times> call list" where
  "create_loop escape db keyspace role [] log = (None, log)"
| "create_loop escape db keyspace role (privilege # ps) log =
     (case Exec db log (grantStatement escape keyspace role privilege) of
        (Some err, log1) \<Rightarrow> (Some err, log1)
      | (None, log1) \<Rightarrow> create_loop escape db keyspace role ps log1)"

definition grant_Create ::
  "(string \<Rightarrow> string) \<Rightarrow> DB \<Rightarrow> Managed \<Rightarrow> call list \<Rightarrow> ExternalCreation outcome \<times> Managed \<times> call list" where
  "grant_Create escape db mg log =
     (case mg of
        GrantCR cr \<Rightarrow>
          (case gp_Role (grant_ForProvider cr) of
             None \<Rightarrow> (Panic, mg, log)
           | Some role \<Rightarrow>
               (case gp_Keyspace (grant_ForProvider cr) of
                  None \<Rightarrow> (Panic, mg, log)
                | Some keyspace \<Rightarrow>
                    (let privileges = replaceUnderscoreWithSpace (gp_Privileges (grant_ForProvider cr))
                     in case create_loop escape db keyspace role privileges log of
                          (Some err, log1) \<Rightarrow>
                            (Return (ExternalCreation []) (Some (Wrap err errGrantCreate)), mg, log1)
                        | (None, log1) \<Rightarrow> (Return (ExternalCreation []) None, mg, log1))))
      | _ \<Rightarrow> (Return (ExternalCreation []) (Some (New errNotGrant)), mg, log))"

text \<open>
  The two loops of Update: the GRANT loop also records each granted privilege in
  \<open>desiredPermissions\<close>; the REVOKE loop runs over the privileges of the status.
\<close>

fun update_grant_loop ::
  "(string \<Rightarrow> string) \<Rightarrow> DB \<Rightarrow> string \<Rightarrow> string \<Rightarrow> string list \<Rightarrow> (string \<rightharpoonup> bool) \<Rightarrow> call list
     \<Rightarrow> error option \<times> (string \<rightharpoonup> bool) \<times> call list" where
  "update_grant_loop escape db keyspace role [] desiredPermissions log =
     (None, desiredPermissions, log)"
| "update_grant_loop escape db keyspace role (privilege # ps) desiredPermissions log =
     (case Exec db log (grantStatement escape keyspace role privilege) of
        (Some err, log1) \<Rightarrow> (Some err, desiredPermissions, log1)
      | (None, log1) \<Rightarrow>
          update_grant_loop escape db keyspace role ps (desiredPermissions(privilege \<mapsto> True)) log1)"

fun update_revoke_loop ::
  "(string \<Rightarrow> string) \<Rightarrow> DB \<Rightarrow> string \<Rightarrow> string \<Rightarrow> (string \<rightharpoonup> bool) \<Rightarrow> string list \<Rightarrow> call list
     \<Rightarrow> error option \<times> call list" where
  "update_revoke_loop escape db keyspace role desiredPermissions [] log = (None, log)"
| "update_revoke_loop escape db keyspace role desiredPermissions (p # ps) log =
     (if \<not> lookup desiredPermissions p
      then (case Exec db log (revokeStatement escape keyspace role p) of
              (Some err, log1) \<Rightarrow> (Some err, log1)
            | (None, log1) \<Rightarrow> update_revoke_loop escape db keyspace role desiredPermissions ps log1)
      else update_revoke_loop escape db keyspace role desiredPermissions ps log)"

definition grant_Update ::
  "(string \<Rightarrow> string) \<Rightarrow> DB \<Rightarrow> Managed \<Rightarrow> call list \<Rightarrow> ExternalUpdate outcome \<times> Managed \<times> call list" where
  "grant_Update escape db mg log =
     (case mg of
        GrantCR cr \<Rightarrow>
          (case gp_Role (grant_ForProvider cr) of
             None \<Rightarrow> (Panic, mg, log)
           | Some role \<Rightarrow>
               (case gp_Keyspace (grant_ForProvider cr) of
                  None \<Rightarrow> (Panic, mg, log)
                | Some keyspace \<Rightarrow>
                    (let privileges = replaceUnderscoreWithSpace (gp_Privileges (grant_ForProvider cr))
                     in case update_grant_loop escape db keyspace role privileges Map.empty log of
                          (Some err, desiredPermissions, log1) \<Rightarrow>
                            (Return (ExternalUpdate []) (Some (Wrap err errGrantCreate)), mg, log1)
                        | (None, desiredPermissions, log1) \<Rightarrow>
                            (case update_revoke_loop escape db keyspace role desiredPermissions
                                    (grant_AtProvider_Privileges cr) log1 of
                               (Some err, log2) \<Rightarrow>
                                 (Return (ExternalUpdate []) (Some (Wrap err errGrantDelete)), mg, log2)
                             | (None, log2) \<Rightarrow>
                                 (Return (ExternalUpdate []) None,
                                  GrantCR (cr\<lparr>grant_AtProvider_Privileges := privileges\<rparr>), log2)))))
      | _ \<Rightarrow> (Return (ExternalUpdate []) (Some (New errNotGrant)), mg, log))"

fun delete_loop ::
  "(string \<Rightarrow> string) \<Rightarrow> DB \<Rightarrow> string \<Rightarrow> string \<Rightarrow> string list \<Rightarrow> call list \<Rightarrow> error option \<times> call list" where
  "delete_loop escape db keyspace role [] log = (None, log)"
| "delete_loop escape db keyspace role (privilege # ps) log =
     (case Exec db log (revokeStatement escape keyspace role privilege) of
        (Some err, log1) \<Rightarrow> (Some err, log1)
      | (None, log1) \<Rightarrow> delete_loop escape db keyspace role ps log1)"

definition grant_Delete ::
  "(string \<Rightarrow> string) \<Rightarrow> DB \<Rightarrow> Managed \<Rightarrow> call list \<Rightarrow> unit outcome \<times> Managed \<times> call list" where
  "grant_Delete escape db mg log =
     (case mg of
        GrantCR cr \<Rightarrow>
          (case gp_Role (grant_ForProvider cr) of
             None \<Rightarrow> (Panic, mg, log)
           | Some role \<Rightarrow>
               (case gp_Keyspace (grant_ForProvider cr) of
                  None \<Rightarrow> (Panic, mg, log)
                | Some keyspace \<Rightarrow>
                    (let privileges = replaceUnderscoreWithSpace (gp_Privileges (grant_ForProvider cr))
                     in case delete_loop escape db keyspace role privileges log of
                          (Some err, log1) \<Rightarrow> (Return () (Some (Wrap err errGrantDelete)), mg, log1)
                        | (None, log1) \<Rightarrow> (Return () None, mg, log1))))
      | _ \<Rightarrow> (Return () (Some (New errNotGrant)), mg, log))"

section \<open>The statement template of the specification\<close>

text \<open>
  The spec's template of the keyspace statements: the prefix, the identity between double
  quotes, then the replication map and the durable-writes clause, with the boolean in
  lower case.
\<close>

definition spec_keyspace_statement ::
  "string \<Rightarrow> (string \<Rightarrow> string) \<Rightarrow> string \<Rightarrow> string \<Rightarrow> int \<Rightarrow> bool \<Rightarrow> string" where
  \<open>spec_keyspace_statement prefix escape identity class factor durable =
     prefix @ [CHR 0x22] @ escape identity @ [CHR 0x22]
     @ '' WITH replication = {'class': '' @ [CHR 0x27] @ class @ [CHR 0x27]
     @ '', 'replication_factor': '' @ Itoa factor
     @ ''} AND durable_writes = '' @ (if durable then ''true'' else ''false'')\<close>

section \<open>Objects and database doubles of the test suites\<close>

definition notFoundDB :: DB where
  "notFoundDB = \<lparr>ExecFunc = (\<lambda>log query. None), QueryFunc = (\<lambda>log query args. Inr []),
                  GetConnectionDetailsFunc = (\<lambda>username password. [(''username'', username), (''password'', password)])\<rparr>"

definition emptyKeyspace :: Keyspace where
  "emptyKeyspace = \<lparr>ks_Annotations = [],
     ks_ForProvider = \<lparr>ReplicationClass = None, ReplicationFactor = None, DurableWrites = None\<rparr>,
     ks_Conditions = []\<rparr>"

definition emptyRole :: Role where
  "emptyRole = \<lparr>role_Annotations = [], role_Privileges = \<lparr>SuperUser = None, Login = None\<rparr>,
     role_Conditions = []\<rparr>"

definition keyspaceDB :: DB where
  "keyspaceDB =
     \<lparr>ExecFunc = (\<lambda>log query. None),
      QueryFunc = (\<lambda>log query args.
         if query = keyspace_existsQuery then Inr [[Text ''example_keyspace'']]
         else Inr [[TextMap [(''class'', ''org.apache.cassandra.locator.SimpleStrategy''),
                             (''replication_factor'', ''2'')], Boolean True]]),
      GetConnectionDetailsFunc = (\<lambda>username password. [(''username'', username), (''password'', password)])\<rparr>"

definition nullDurableWritesDB :: DB where
  "nullDurableWritesDB =
     \<lparr>ExecFunc = (\<lambda>log query. None),
      QueryFunc = (\<lambda>log query args.
         if query = keyspace_existsQuery then Inr [[Text ''example_keyspace'']]
         else Inr [[TextMap [(''class'', ''SimpleStrategy''), (''replication_factor'', ''2'')], Null]]),
      GetConnectionDetailsFunc = (\<lambda>username password. [(''username'', username), (''password'', password)])\<rparr>"

definition unsetDurableWritesKeyspace :: Keyspace where
  "unsetDurableWritesKeyspace = \<lparr>ks_Annotations = [(''crossplane.io/external-name'', ''example_keyspace'')],
     ks_ForProvider = \<lparr>ReplicationClass = Some ''SimpleStrategy'', ReplicationFactor = Some 2,
                        DurableWrites = None\<rparr>,
     ks_Conditions = []\<rparr>"

definition lateInitKeyspace :: Keyspace where
  "lateInitKeyspace = \<lparr>ks_Annotations = [(''crossplane.io/external-name'', ''example_keyspace'')],
     ks_ForProvider = \<lparr>ReplicationClass = Some ''SimpleStrategy'', ReplicationFactor = None,
                        DurableWrites = Some True\<rparr>,
     ks_Conditions = []\<rparr>"

definition roleRowDB :: "bool \<Rightarrow> bool \<Rightarrow> DB" where
  "roleRowDB isSuperuser canLogin =
     \<lparr>ExecFunc = (\<lambda>log query. None),
      QueryFunc = (\<lambda>log query args. Inr [[Boolean isSuperuser, Boolean canLogin]]),
      GetConnectionDetailsFunc = (\<lambda>username password. [(''username'', username), (''password'', password)])\<rparr>"

definition loginOnlyRole :: Role where
  "loginOnlyRole = \<lparr>role_Annotations = [(''crossplane.io/external-name'', ''example_role'')],
     role_Privileges = \<lparr>SuperUser = None, Login = Some True\<rparr>,
     role_Conditions = []\<rparr>"

definition exampleKeyspace :: Keyspace where
  "exampleKeyspace = \<lparr>ks_Annotations = [(''crossplane.io/external-name'', ''example_keyspace'')],
     ks_ForProvider = \<lparr>ReplicationClass = Some ''SimpleStrategy'', ReplicationFactor = Some 2,
                        DurableWrites = Some True\<rparr>,
     ks_Conditions = []\<rparr>"

definition permissionsDB :: "string list list \<Rightarrow> DB" where
  "permissionsDB rows =
     \<lparr>ExecFunc = (\<lambda>log query. None),
      QueryFunc = (\<lambda>log query args. Inr (map (\<lambda>permissions. [TextList permissions]) rows)),
      GetConnectionDetailsFunc = (\<lambda>username password. [(''username'', username), (''password'', password)])\<rparr>"

definition exampleGrant :: "string list \<Rightarrow> string list \<Rightarrow> Grant" where
  "exampleGrant privileges atProvider =
     \<lparr>grant_ForProvider = \<lparr>gp_Privileges = privileges, gp_Role = Some ''example_role'',
                             gp_Keyspace = Some ''example_keyspace''\<rparr>,
      grant_AtProvider_Privileges = atProvider,
      grant_Conditions = []\<rparr>"

definition failingDB :: "nat \<Rightarrow> error \<Rightarrow> DB" where
  "failingDB n err =
     \<lparr>ExecFunc = (\<lambda>log query. if length log = n then Some err else None),
      QueryFunc = (\<lambda>log query args. Inr []),
      GetConnectionDetailsFunc = (\<lambda>username password. [(''username'', username), (''password'', password)])\<rparr>"

section \<open>Properties of the reconcilers\<close>

text \<open>
  C6. For a Keyspace and for a Role: when the existence query succeeds and no row is
  scanned from its cursor, Observe returns exists = false and upToDate = false with no
  error; the object is left as it was and the query is the only call made.
\<close>

theorem observe_absent_is_not_an_error:
  "(QueryFunc db log keyspace_existsQuery [GetExternalName (ks_Annotations k)] = Inr existsIter
      \<and> ScanString existsIter = None
    \<longrightarrow> keyspace_Observe db (KeyspaceCR k) log =
          (Return \<lparr>ResourceExists = False, ResourceUpToDate = False, ResourceLateInitialized = False\<rparr> None,
           KeyspaceCR k,
           log @ [QueryCall keyspace_existsQuery [GetExternalName (ks_Annotations k)]]))
   \<and> (QueryFunc db log role_query [GetExternalName (role_Annotations r)] = Inr iter
      \<and> ScanBoolBool iter = None
    \<longrightarrow> role_Observe db (RoleCR r) log =
          (Return \<lparr>ResourceExists = False, ResourceUpToDate = False, ResourceLateInitialized = False\<rparr> None,
           RoleCR r,
           log @ [QueryCall role_query [GetExternalName (role_Annotations r)]]))"
  by (simp add: keyspace_Observe_def role_Observe_def Query_def)

theorem observe_absent_is_not_an_error_witness:
  "keyspace_Observe notFoundDB (KeyspaceCR emptyKeyspace) [] =
     (Return \<lparr>ResourceExists = False, ResourceUpToDate = False, ResourceLateInitialized = False\<rparr> None,
      KeyspaceCR emptyKeyspace, [QueryCall keyspace_existsQuery [[]]])
   \<and> role_Observe notFoundDB (RoleCR emptyRole) [] =
     (Return \<lparr>ResourceExists = False, ResourceUpToDate = False, ResourceLateInitialized = False\<rparr> None,
      RoleCR emptyRole, [QueryCall role_query [[]]])"
  using observe_absent_is_not_an_error [of notFoundDB "[]" emptyKeyspace "[]" emptyRole "[]"]
  by (simp add: notFoundDB_def emptyKeyspace_def emptyRole_def ScanString_def ScanBoolBool_def
        GetExternalName_def)

text \<open>
  C7. For an object that is not of the reconciler's kind (the nil interface included),
  each of Observe, Create, Update and Delete of the Keyspace, Role and Grant reconcilers
  returns the kind-mismatch error with the zero value of its result, makes no call to the
  database and leaves the object as it was.
\<close>

theorem kind_mismatch_is_an_error_without_effect:
  "(\<not> isKeyspace mg \<longrightarrow>
      keyspace_Observe db mg log = (Return zeroObservation (Some (New errNotKeyspace)), mg, log)
    \<and> keyspace_Create escape db mg log = (Return (ExternalCreation []) (Some (New errNotKeyspace)), mg, log)
    \<and> keyspace_Update escape db mg log = (Return (ExternalUpdate []) (Some (New errNotKeyspace)), mg, log)
    \<and> keyspace_Delete escape db mg log = (Return () (Some (New errNotKeyspace)), mg, log))
   \<and> (\<not> isRole mg \<longrightarrow>
      role_Observe db mg log = (Return zeroObservation (Some (New errNotRole)), mg, log)
    \<and> role_Create escape generated db mg log = (Return (ExternalCreation []) (Some (New errNotRole)), mg, log)
    \<and> role_Update escape db mg log = (Return (ExternalUpdate []) (Some (New errNotRole)), mg, log)
    \<and> role_Delete escape db mg log = (Return () (Some (New errNotRole)), mg, log))
   \<and> (\<not> isGrant mg \<longrightarrow>
      grant_Observe db order mg log = (Return zeroObservation (Some (New errNotGrant)), mg, log)
    \<and> grant_Create escape db mg log = (Return (ExternalCreation []) (Some (New errNotGrant)), mg, log)
    \<and> grant_Update escape db mg log = (Return (ExternalUpdate []) (Some (New errNotGrant)), mg, log)
    \<and> grant_Delete escape db mg log = (Return () (Some (New errNotGrant)), mg, log))"
  by (cases mg)
     (simp_all add: isKeyspace_def isRole_def isGrant_def
        keyspace_Observe_def keyspace_Create_def keyspace_Update_def keyspace_Delete_def
        role_Observe_def role_Create_def role_Update_def role_Delete_def
        grant_Observe_def grant_Create_def grant_Update_def grant_Delete_def)

theorem kind_mismatch_is_an_error_without_effect_witness:
  "\<not> isKeyspace NilManaged \<and> \<not> isRole NilManaged \<and> \<not> isGrant NilManaged
   \<and> keyspace_Observe notFoundDB NilManaged [] = (Return zeroObservation (Some (New errNotKeyspace)), NilManaged, [])
   \<and> role_Create (\<lambda>s. s) (Inr ''secret'') notFoundDB NilManaged [] =
        (Return (ExternalCreation []) (Some (New errNotRole)), NilManaged, [])
   \<and> grant_Update (\<lambda>s. s) notFoundDB NilManaged [] =
        (Return (ExternalUpdate []) (Some (New errNotGrant)), NilManaged, [])
   \<and> grant_Delete (\<lambda>s. s) notFoundDB (KeyspaceCR emptyKeyspace) [] =
        (Return () (Some (New errNotGrant)), KeyspaceCR emptyKeyspace, [])"
  using kind_mismatch_is_an_error_without_effect
          [of NilManaged notFoundDB "[]" "\<lambda>s. s" "Inr ''secret''" "[]"]
        kind_mismatch_is_an_error_without_effect
          [of "KeyspaceCR emptyKeyspace" notFoundDB "[]" "\<lambda>s. s" "Inr ''secret''" "[]"]
  by (simp add: isKeyspace_def isRole_def isGrant_def)

lemma keyspace_lateInit_eq:
  "keyspace_lateInit observed desired =
     (ReplicationClass desired = None \<or> ReplicationFactor desired = None \<or> DurableWrites desired = None,
      \<lparr>ReplicationClass = (case ReplicationClass desired of None \<Rightarrow> ReplicationClass observed | Some c \<Rightarrow> Some c),
       ReplicationFactor = (case ReplicationFactor desired of None \<Rightarrow> ReplicationFactor observed | Some n \<Rightarrow> Some n),
       DurableWrites = (case DurableWrites desired of None \<Rightarrow> DurableWrites observed | Some b \<Rightarrow> Some b)\<rparr>)"
  by (cases desired) (auto simp: keyspace_lateInit_def split: option.splits)

lemma keyspace_upToDate_eq:
  "ReplicationClass observed \<noteq> None \<Longrightarrow> ReplicationFactor observed \<noteq> None
     \<Longrightarrow> keyspace_upToDate observed desired = (DurableWrites observed \<noteq> None \<and> desired = observed)"
  by (cases desired; cases observed) (auto simp: keyspace_upToDate_def)

lemma keyspace_Observe_existing:
  assumes "QueryFunc db log keyspace_existsQuery [GetExternalName (ks_Annotations cr)] = Inr existsIter"
    and "ScanString existsIter = Some keyspaceName"
    and "QueryFunc db (log @ [QueryCall keyspace_existsQuery [GetExternalName (ks_Annotations cr)]])
           keyspace_detailsQuery [GetExternalName (ks_Annotations cr)] = Inr detailsIter"
    and "ScanMapBool detailsIter = Some (replicationMap, durableWrites)"
  shows "keyspace_Observe db (KeyspaceCR cr) log =
           (Return \<lparr>ResourceExists = True,
                    ResourceUpToDate =
                      keyspace_upToDate (keyspace_observed replicationMap durableWrites)
                        (snd (keyspace_lateInit (keyspace_observed replicationMap durableWrites) (ks_ForProvider cr))),
                    ResourceLateInitialized =
                      fst (keyspace_lateInit (keyspace_observed replicationMap durableWrites) (ks_ForProvider cr))\<rparr>
              None,
            KeyspaceCR (cr\<lparr>ks_ForProvider :=
                              snd (keyspace_lateInit (keyspace_observed replicationMap durableWrites) (ks_ForProvider cr)),
                            ks_Conditions := SetConditions Available (ks_Conditions cr)\<rparr>),
            log @ [QueryCall keyspace_existsQuery [GetExternalName (ks_Annotations cr)],
                   QueryCall keyspace_detailsQuery [GetExternalName (ks_Annotations cr)]])"
  using assms by (simp add: keyspace_Observe_def Query_def split_beta Let_def)

text \<open>
  C4, as amended. For a Keyspace that exists (both queries succeed and both rows are
  scanned), Observe fills each unset desired attribute (replication class, replication
  factor, durable writes) from the observed values before it compares, and reports
  lateInitialized = true exactly when some attribute was unset. upToDate is true exactly
  when the observed durable-writes value is present (the scanned cell was not null) and
  the desired parameters after the filling equal the observed ones; so when the observed
  durable-writes value is present and every attribute that was set already agreed with
  the observed one, upToDate is true, together with lateInitialized = true when one was
  unset.
\<close>

theorem keyspace_observe_fills_then_compares:
  assumes "QueryFunc db log keyspace_existsQuery [GetExternalName (ks_Annotations cr)] = Inr existsIter"
    and "ScanString existsIter = Some keyspaceName"
    and "QueryFunc db (log @ [QueryCall keyspace_existsQuery [GetExternalName (ks_Annotations cr)]])
           keyspace_detailsQuery [GetExternalName (ks_Annotations cr)] = Inr detailsIter"
    and "ScanMapBool detailsIter = Some (replicationMap, durableWrites)"
    and "observed = keyspace_observed replicationMap durableWrites"
    and "desired = ks_ForProvider cr"
    and "filled =
           \<lparr>ReplicationClass = (case ReplicationClass desired of None \<Rightarrow> ReplicationClass observed | Some c \<Rightarrow> Some c),
            ReplicationFactor = (case ReplicationFactor desired of None \<Rightarrow> ReplicationFactor observed | Some n \<Rightarrow> Some n),
            DurableWrites = (case DurableWrites desired of None \<Rightarrow> DurableWrites observed | Some b \<Rightarrow> Some b)\<rparr>"
  shows "keyspace_Observe db (KeyspaceCR cr) log =
           (Return \<lparr>ResourceExists = True,
                    ResourceUpToDate = (durableWrites \<noteq> None \<and> filled = observed),
                    ResourceLateInitialized =
                      (ReplicationClass desired = None \<or> ReplicationFactor desired = None
                       \<or> DurableWrites desired = None)\<rparr> None,
            KeyspaceCR (cr\<lparr>ks_ForProvider := filled,
                            ks_Conditions := SetConditions Available (ks_Conditions cr)\<rparr>),
            log @ [QueryCall keyspace_existsQuery [GetExternalName (ks_Annotations cr)],
                   QueryCall keyspace_detailsQuery [GetExternalName (ks_Annotations cr)]])
         \<and> (durableWrites \<noteq> None
              \<and> (ReplicationClass desired = None \<or> ReplicationClass desired = ReplicationClass observed)
              \<and> (ReplicationFactor desired = None \<or> ReplicationFactor desired = ReplicationFactor observed)
              \<and> (DurableWrites desired = None \<or> DurableWrites desired = DurableWrites observed)
             \<longrightarrow> filled = observed)"
proof -
  have obs: "ReplicationClass observed \<noteq> None" "ReplicationFactor observed \<noteq> None"
    "DurableWrites observed = durableWrites"
    using assms(5) by (simp_all add: keyspace_observed_def)
  have li: "keyspace_lateInit observed desired =
      (ReplicationClass desired = None \<or> ReplicationFactor desired = None \<or> DurableWrites desired = None, filled)"
    using assms(7) by (simp add: keyspace_lateInit_eq)
  have utd: "keyspace_upToDate observed filled = (durableWrites \<noteq> None \<and> filled = observed)"
    using keyspace_upToDate_eq [OF obs(1,2)] obs(3) by simp
  have run: "keyspace_Observe db (KeyspaceCR cr) log =
           (Return \<lparr>ResourceExists = True,
                    ResourceUpToDate = (durableWrites \<noteq> None \<and> filled = observed),
                    ResourceLateInitialized =
                      (ReplicationClass desired = None \<or> ReplicationFactor desired = None
                       \<or> DurableWrites desired = None)\<rparr> None,
            KeyspaceCR (cr\<lparr>ks_ForProvider := filled,
                            ks_Conditions := SetConditions Available (ks_Conditions cr)\<rparr>),
            log @ [QueryCall keyspace_existsQuery [GetExternalName (ks_Annotations cr)],
                   QueryCall keyspace_detailsQuery [GetExternalName (ks_Annotations cr)]])"
    unfolding keyspace_Observe_existing [OF assms(1-4)]
    using li utd assms(5,6) by simp
  have agree: "durableWrites \<noteq> None
              \<and> (ReplicationClass desired = None \<or> ReplicationClass desired = ReplicationClass observed)
              \<and> (ReplicationFactor desired = None \<or> ReplicationFactor desired = ReplicationFactor observed)
              \<and> (DurableWrites desired = None \<or> DurableWrites desired = DurableWrites observed)
             \<longrightarrow> filled = observed"
    using assms(7) obs by (cases observed) (auto split: option.splits)
  from run agree show ?thesis by (rule conjI)
qed

theorem keyspace_observe_fills_then_compares_witness:
  "keyspace_Observe keyspaceDB (KeyspaceCR lateInitKeyspace) [] =
     (Return \<lparr>ResourceExists = True, ResourceUpToDate = True, ResourceLateInitialized = True\<rparr> None,
      KeyspaceCR (lateInitKeyspace\<lparr>ks_ForProvider :=
          \<lparr>ReplicationClass = Some ''SimpleStrategy'', ReplicationFactor = Some 2, DurableWrites = Some True\<rparr>,
          ks_Conditions := [Available]\<rparr>),
      [QueryCall keyspace_existsQuery [''example_keyspace''],
       QueryCall keyspace_detailsQuery [''example_keyspace'']])"
proof -
  have n: "GetExternalName (ks_Annotations lateInitKeyspace) = ''example_keyspace''"
    by (simp add: lateInitKeyspace_def GetExternalName_def)
  have q1: "QueryFunc keyspaceDB [] keyspace_existsQuery [GetExternalName (ks_Annotations lateInitKeyspace)]
              = Inr [[Text ''example_keyspace'']]"
    by (simp add: keyspaceDB_def)
  have s1: "ScanString [[Text ''example_keyspace'']] = Some ''example_keyspace''"
    by (simp add: ScanString_def)
  have ne: "keyspace_detailsQuery \<noteq> keyspace_existsQuery"
    by (simp add: keyspace_detailsQuery_def keyspace_existsQuery_def)
  have q2: "QueryFunc keyspaceDB
              ([] @ [QueryCall keyspace_existsQuery [GetExternalName (ks_Annotations lateInitKeyspace)]])
              keyspace_detailsQuery [GetExternalName (ks_Annotations lateInitKeyspace)]
              = Inr [[TextMap [(''class'', ''org.apache.cassandra.locator.SimpleStrategy''),
                               (''replication_factor'', ''2'')], Boolean True]]"
    using ne by (simp add: keyspaceDB_def)
  have s2: "ScanMapBool [[TextMap [(''class'', ''org.apache.cassandra.locator.SimpleStrategy''),
                               (''replication_factor'', ''2'')], Boolean True]]
            = Some ([(''class'', ''org.apache.cassandra.locator.SimpleStrategy''),
                     (''replication_factor'', ''2'')], Some True)"
    by (simp add: ScanMapBool_def)
  have ob: "keyspace_observed [(''class'', ''org.apache.cassandra.locator.SimpleStrategy''),
                     (''replication_factor'', ''2'')] (Some True)
            = \<lparr>ReplicationClass = Some ''SimpleStrategy'', ReplicationFactor = Some 2, DurableWrites = Some True\<rparr>"
    by (simp add: keyspace_observed_def Atoi_def is_digit_def)
  have fp: "ks_ForProvider lateInitKeyspace =
      \<lparr>ReplicationClass = Some ''SimpleStrategy'', ReplicationFactor = None, DurableWrites = Some True\<rparr>"
    by (simp add: lateInitKeyspace_def)
  have cs: "SetConditions Available (ks_Conditions lateInitKeyspace) = [Available]"
    by (simp add: lateInitKeyspace_def SetConditions_def)
  show ?thesis
    using keyspace_observe_fills_then_compares [OF q1 s1 q2 s2 refl refl refl]
    by (simp add: ob fp cs n)
qed

text \<open>
  The keyspace exists and its row carries a null durable-writes cell; the desired
  parameters have class and factor equal to the observed ones and durable writes unset,
  so the only difference is an unset attribute. Observe reports lateInitialized = true
  and upToDate = false, and durable writes stay unset.
\<close>

theorem keyspace_observe_null_durable_writes_counterexample:
  "ks_ForProvider unsetDurableWritesKeyspace =
     \<lparr>ReplicationClass = Some ''SimpleStrategy'', ReplicationFactor = Some 2, DurableWrites = None\<rparr>
   \<and> keyspace_observed [(''class'', ''SimpleStrategy''), (''replication_factor'', ''2'')] None =
     \<lparr>ReplicationClass = Some ''SimpleStrategy'', ReplicationFactor = Some 2, DurableWrites = None\<rparr>
   \<and> keyspace_Observe nullDurableWritesDB (KeyspaceCR unsetDurableWritesKeyspace) [] =
     (Return \<lparr>ResourceExists = True, ResourceUpToDate = False, ResourceLateInitialized = True\<rparr> None,
      KeyspaceCR (unsetDurableWritesKeyspace\<lparr>ks_Conditions := [Available]\<rparr>),
      [QueryCall keyspace_existsQuery [''example_keyspace''],
       QueryCall keyspace_detailsQuery [''example_keyspace'']])"
proof -
  have n: "GetExternalName (ks_Annotations unsetDurableWritesKeyspace) = ''example_keyspace''"
    by (simp add: unsetDurableWritesKeyspace_def GetExternalName_def)
  have q1: "QueryFunc nullDurableWritesDB [] keyspace_existsQuery
              [GetExternalName (ks_Annotations unsetDurableWritesKeyspace)]
              = Inr [[Text ''example_keyspace'']]"
    by (simp add: nullDurableWritesDB_def)
  have s1: "ScanString [[Text ''example_keyspace'']] = Some ''example_keyspace''"
    by (simp add: ScanString_def)
  have ne: "keyspace_detailsQuery \<noteq> keyspace_existsQuery"
    by (simp add: keyspace_detailsQuery_def keyspace_existsQuery_def)
  have q2: "QueryFunc nullDurableWritesDB
              ([] @ [QueryCall keyspace_existsQuery [GetExternalName (ks_Annotations unsetDurableWritesKeyspace)]])
              keyspace_detailsQuery [GetExternalName (ks_Annotations unsetDurableWritesKeyspace)]
              = Inr [[TextMap [(''class'', ''SimpleStrategy''), (''replication_factor'', ''2'')], Null]]"
    using ne by (simp add: nullDurableWritesDB_def)
  have s2: "ScanMapBool [[TextMap [(''class'', ''SimpleStrategy''), (''replication_factor'', ''2'')], Null]]
            = Some ([(''class'', ''SimpleStrategy''), (''replication_factor'', ''2'')], None)"
    by (simp add: ScanMapBool_def)
  have ob: "keyspace_observed [(''class'', ''SimpleStrategy''), (''replication_factor'', ''2'')] None
            = \<lparr>ReplicationClass = Some ''SimpleStrategy'', ReplicationFactor = Some 2, DurableWrites = None\<rparr>"
    by (simp add: keyspace_observed_def Atoi_def is_digit_def)
  have fp: "ks_ForProvider unsetDurableWritesKeyspace =
      \<lparr>ReplicationClass = Some ''SimpleStrategy'', ReplicationFactor = Some 2, DurableWrites = None\<rparr>"
    by (simp add: unsetDurableWritesKeyspace_def)
  have cs: "SetConditions Available (ks_Conditions unsetDurableWritesKeyspace) = [Available]"
    by (simp add: unsetDurableWritesKeyspace_def SetConditions_def)
  have run: "keyspace_Observe nullDurableWritesDB (KeyspaceCR unsetDurableWritesKeyspace) [] =
     (Return \<lparr>ResourceExists = True, ResourceUpToDate = False, ResourceLateInitialized = True\<rparr> None,
      KeyspaceCR (unsetDurableWritesKeyspace\<lparr>ks_Conditions := [Available]\<rparr>),
      [QueryCall keyspace_existsQuery [''example_keyspace''],
       QueryCall keyspace_detailsQuery [''example_keyspace'']])"
    unfolding keyspace_Observe_existing [OF q1 s1 q2 s2] ob fp cs n
    by (simp add: keyspace_lateInit_def keyspace_upToDate_def unsetDurableWritesKeyspace_def)
  from fp ob run show ?thesis by simp
qed

lemma role_lateInit_eq:
  "role_lateInit observed desired =
     (SuperUser desired = None \<or> Login desired = None,
      \<lparr>SuperUser = (case SuperUser desired of None \<Rightarrow> SuperUser observed | Some b \<Rightarrow> Some b),
       Login = (case Login desired of None \<Rightarrow> Login observed | Some b \<Rightarrow> Some b)\<rparr>)"
  by (cases desired) (auto simp: role_lateInit_def split: option.splits)

lemma role_Observe_existing:
  assumes "QueryFunc db log role_query [GetExternalName (role_Annotations cr)] = Inr iter"
    and "ScanBoolBool iter = Some (isSuperuser, canLogin)"
  shows "role_Observe db (RoleCR cr) log =
           (Return \<lparr>ResourceExists = True,
                    ResourceUpToDate =
                      role_upToDate \<lparr>SuperUser = Some isSuperuser, Login = Some canLogin\<rparr>
                        (snd (role_lateInit \<lparr>SuperUser = Some isSuperuser, Login = Some canLogin\<rparr>
                                (role_Privileges cr))),
                    ResourceLateInitialized =
                      fst (role_lateInit \<lparr>SuperUser = Some isSuperuser, Login = Some canLogin\<rparr>
                             (role_Privileges cr))\<rparr> None,
            RoleCR (cr\<lparr>role_Privileges :=
                          snd (role_lateInit \<lparr>SuperUser = Some isSuperuser, Login = Some canLogin\<rparr>
                                 (role_Privileges cr)),
                        role_Conditions := SetConditions Available (role_Conditions cr)\<rparr>),
            log @ [QueryCall role_query [GetExternalName (role_Annotations cr)]])"
  using assms by (simp add: role_Observe_def Query_def split_beta Let_def)

text \<open>
  C8, as amended. For a Role whose query returns a row, when a desired boolean (superuser,
  login) was unset, Observe fills the unset booleans from the observed row and reports
  lateInitialized = true in that call; it reports upToDate = true exactly when every
  boolean that was set equals the observed one, hence always when both were unset.
\<close>

theorem role_observe_fills_then_compares:
  assumes "QueryFunc db log role_query [GetExternalName (role_Annotations cr)] = Inr iter"
    and "ScanBoolBool iter = Some (isSuperuser, canLogin)"
    and "desired = role_Privileges cr"
    and "SuperUser desired = None \<or> Login desired = None"
  shows "role_Observe db (RoleCR cr) log =
           (Return \<lparr>ResourceExists = True,
                    ResourceUpToDate =
                      ((SuperUser desired = None \<or> SuperUser desired = Some isSuperuser)
                       \<and> (Login desired = None \<or> Login desired = Some canLogin)),
                    ResourceLateInitialized = True\<rparr> None,
            RoleCR (cr\<lparr>role_Privileges :=
                          \<lparr>SuperUser = (case SuperUser desired of None \<Rightarrow> Some isSuperuser | Some b \<Rightarrow> Some b),
                           Login = (case Login desired of None \<Rightarrow> Some canLogin | Some b \<Rightarrow> Some b)\<rparr>,
                        role_Conditions := SetConditions Available (role_Conditions cr)\<rparr>),
            log @ [QueryCall role_query [GetExternalName (role_Annotations cr)]])"
proof -
  show ?thesis
    unfolding role_Observe_existing [OF assms(1,2)] role_lateInit_eq
    using assms(3,4) by (auto simp: role_upToDate_def split: option.splits)
qed

theorem role_observe_fills_then_compares_witness:
  "role_Observe (roleRowDB False False) (RoleCR loginOnlyRole) [] =
       (Return \<lparr>ResourceExists = True, ResourceUpToDate = False, ResourceLateInitialized = True\<rparr> None,
        RoleCR (loginOnlyRole\<lparr>role_Privileges := \<lparr>SuperUser = Some False, Login = Some True\<rparr>,
                              role_Conditions := [Available]\<rparr>),
        [QueryCall role_query [''example_role'']])
   \<and> role_Observe (roleRowDB True True) (RoleCR emptyRole) [] =
       (Return \<lparr>ResourceExists = True, ResourceUpToDate = True, ResourceLateInitialized = True\<rparr> None,
        RoleCR (emptyRole\<lparr>role_Privileges := \<lparr>SuperUser = Some True, Login = Some True\<rparr>,
                          role_Conditions := [Available]\<rparr>),
        [QueryCall role_query [[]]])"
proof -
  have q1: "QueryFunc (roleRowDB False False) [] role_query [GetExternalName (role_Annotations loginOnlyRole)]
              = Inr [[Boolean False, Boolean False]]"
    by (simp add: roleRowDB_def)
  have q2: "QueryFunc (roleRowDB True True) [] role_query [GetExternalName (role_Annotations emptyRole)]
              = Inr [[Boolean True, Boolean True]]"
    by (simp add: roleRowDB_def)
  have s: "ScanBoolBool [[Boolean a, Boolean b]] = Some (a, b)" for a b
    by (simp add: ScanBoolBool_def)
  have u1: "SuperUser (role_Privileges loginOnlyRole) = None \<or> Login (role_Privileges loginOnlyRole) = None"
    by (simp add: loginOnlyRole_def)
  have u2: "SuperUser (role_Privileges emptyRole) = None \<or> Login (role_Privileges emptyRole) = None"
    by (simp add: emptyRole_def)
  show ?thesis
    using role_observe_fills_then_compares [OF q1 s refl u1]
          role_observe_fills_then_compares [OF q2 s refl u2]
    by (simp add: loginOnlyRole_def emptyRole_def GetExternalName_def SetConditions_def)
qed

text \<open>
  With superuser unset and login set to true against an observed row (false, false),
  Observe fills superuser and reports lateInitialized = true, but upToDate = false: the
  login that was set differs from the observed one.
\<close>

theorem role_observe_unset_boolean_counterexample:
  "SuperUser (role_Privileges loginOnlyRole) = None
   \<and> role_Observe (roleRowDB False False) (RoleCR loginOnlyRole) [] =
       (Return \<lparr>ResourceExists = True, ResourceUpToDate = False, ResourceLateInitialized = True\<rparr> None,
        RoleCR (loginOnlyRole\<lparr>role_Privileges := \<lparr>SuperUser = Some False, Login = Some True\<rparr>,
                              role_Conditions := [Available]\<rparr>),
        [QueryCall role_query [''example_role'']])"
  by (simp add: role_Observe_def Query_def roleRowDB_def loginOnlyRole_def ScanBoolBool_def
        role_lateInit_def role_upToDate_def GetExternalName_def SetConditions_def)

lemma keyspace_clause_eq:
  "prefix @ QuoteIdentifier escape identity @ keyspace_clause params =
     spec_keyspace_statement prefix escape identity
       (case ReplicationClass params of None \<Rightarrow> ''SimpleStrategy'' | Some c \<Rightarrow> c)
       (case ReplicationFactor params of None \<Rightarrow> 1 | Some n \<Rightarrow> n)
       (case DurableWrites params of None \<Rightarrow> True | Some b \<Rightarrow> b)"
  by (simp add: keyspace_clause_def spec_keyspace_statement_def QuoteIdentifier_def
        defaultStrategy_def defaultReplicas_def FormatBool_def split: option.splits)

text \<open>
  C5. For a Keyspace, Create puts a default in the place of each unset attribute
  (replication class SimpleStrategy, replication factor 1, durable writes true) and issues
  exactly one statement, the spec's template with the prefix CREATE KEYSPACE IF NOT EXISTS,
  the identity between double quotes and the boolean in lower case; Update issues the same
  template with the prefix ALTER KEYSPACE. The result carries an error exactly when the
  database rejected the statement, and the object is left as it was.
\<close>

theorem keyspace_create_and_update_statements:
  "keyspace_Create escape db (KeyspaceCR cr) log =
     (Return (ExternalCreation [])
        (map_option (\<lambda>err. New (errCreateKeyspace @ '': '' @ Error err))
           (ExecFunc db log
              (spec_keyspace_statement ''CREATE KEYSPACE IF NOT EXISTS '' escape
                 (GetExternalName (ks_Annotations cr))
                 (case ReplicationClass (ks_ForProvider cr) of None \<Rightarrow> ''SimpleStrategy'' | Some c \<Rightarrow> c)
                 (case ReplicationFactor (ks_ForProvider cr) of None \<Rightarrow> 1 | Some n \<Rightarrow> n)
                 (case DurableWrites (ks_ForProvider cr) of None \<Rightarrow> True | Some b \<Rightarrow> b)))),
      KeyspaceCR cr,
      log @ [ExecCall
              (spec_keyspace_statement ''CREATE KEYSPACE IF NOT EXISTS '' escape
                 (GetExternalName (ks_Annotations cr))
                 (case ReplicationClass (ks_ForProvider cr) of None \<Rightarrow> ''SimpleStrategy'' | Some c \<Rightarrow> c)
                 (case ReplicationFactor (ks_ForProvider cr) of None \<Rightarrow> 1 | Some n \<Rightarrow> n)
                 (case DurableWrites (ks_ForProvider cr) of None \<Rightarrow> True | Some b \<Rightarrow> b))])
   \<and> keyspace_Update escape db (KeyspaceCR cr) log =
     (Return (ExternalUpdate [])
        (map_option (\<lambda>err. New (errUpdateKeyspace @ '': '' @ Error err))
           (ExecFunc db log
              (spec_keyspace_statement ''ALTER KEYSPACE '' escape
                 (GetExternalName (ks_Annotations cr))
                 (case ReplicationClass (ks_ForProvider cr) of None \<Rightarrow> ''SimpleStrategy'' | Some c \<Rightarrow> c)
                 (case ReplicationFactor (ks_ForProvider cr) of None \<Rightarrow> 1 | Some n \<Rightarrow> n)
                 (case DurableWrites (ks_ForProvider cr) of None \<Rightarrow> True | Some b \<Rightarrow> b)))),
      KeyspaceCR cr,
      log @ [ExecCall
              (spec_keyspace_statement ''ALTER KEYSPACE '' escape
                 (GetExternalName (ks_Annotations cr))
                 (case ReplicationClass (ks_ForProvider cr) of None \<Rightarrow> ''SimpleStrategy'' | Some c \<Rightarrow> c)
                 (case ReplicationFactor (ks_ForProvider cr) of None \<Rightarrow> 1 | Some n \<Rightarrow> n)
                 (case DurableWrites (ks_ForProvider cr) of None \<Rightarrow> True | Some b \<Rightarrow> b))])"
proof -
  have c: "keyspace_Create escape db (KeyspaceCR cr) log =
     (Return (ExternalCreation [])
        (map_option (\<lambda>err. New (errCreateKeyspace @ '': '' @ Error err))
           (ExecFunc db log (''CREATE KEYSPACE IF NOT EXISTS ''
              @ QuoteIdentifier escape (GetExternalName (ks_Annotations cr))
              @ keyspace_clause (ks_ForProvider cr)))),
      KeyspaceCR cr,
      log @ [ExecCall (''CREATE KEYSPACE IF NOT EXISTS ''
              @ QuoteIdentifier escape (GetExternalName (ks_Annotations cr))
              @ keyspace_clause (ks_ForProvider cr))])"
    by (simp add: keyspace_Create_def Exec_def Let_def split: option.splits)
  have u: "keyspace_Update escape db (KeyspaceCR cr) log =
     (Return (ExternalUpdate [])
        (map_option (\<lambda>err. New (errUpdateKeyspace @ '': '' @ Error err))
           (ExecFunc db log (''ALTER KEYSPACE ''
              @ QuoteIdentifier escape (GetExternalName (ks_Annotations cr))
              @ keyspace_clause (ks_ForProvider cr)))),
      KeyspaceCR cr,
      log @ [ExecCall (''ALTER KEYSPACE ''
              @ QuoteIdentifier escape (GetExternalName (ks_Annotations cr))
              @ keyspace_clause (ks_ForProvider cr))])"
    by (simp add: keyspace_Update_def Exec_def Let_def split: option.splits)
  show ?thesis
    unfolding c u keyspace_clause_eq by simp
qed


lemma Itoa_1_2: "Itoa 1 = ''1''" "Itoa 2 = ''2''"
  by code_simp+

theorem keyspace_create_and_update_statements_witness:
  \<open>keyspace_Create (\<lambda>s. s) notFoundDB (KeyspaceCR exampleKeyspace) [] =
     (Return (ExternalCreation []) None, KeyspaceCR exampleKeyspace,
      [ExecCall ''CREATE KEYSPACE IF NOT EXISTS "example_keyspace" WITH replication = {'class': 'SimpleStrategy', 'replication_factor': 2} AND durable_writes = true''])
   \<and> keyspace_Update (\<lambda>s. s) notFoundDB (KeyspaceCR emptyKeyspace) [] =
     (Return (ExternalUpdate []) None, KeyspaceCR emptyKeyspace,
      [ExecCall ''ALTER KEYSPACE "" WITH replication = {'class': 'SimpleStrategy', 'replication_factor': 1} AND durable_writes = true''])\<close>
  using keyspace_create_and_update_statements [of "\<lambda>s. s" notFoundDB exampleKeyspace "[]"]
        keyspace_create_and_update_statements [of "\<lambda>s. s" notFoundDB emptyKeyspace "[]"]
  by (simp add: spec_keyspace_statement_def exampleKeyspace_def emptyKeyspace_def notFoundDB_def
        GetExternalName_def Itoa_1_2)

lemma lookup_set_true: "lookup (set_true m ps) p = (p \<in> set ps \<or> lookup m p)"
  by (induction ps arbitrary: m) (auto simp: lookup_def)

lemma lookup_empty: "lookup Map.empty p = False"
  by (simp add: lookup_def)

lemma dom_set_true: "dom (set_true m ps) = dom m \<union> set ps"
  by (induction ps arbitrary: m) auto

lemma fst_range_desired:
  "fst (range_desired obs order (u, r)) = (u \<and> (\<forall>p\<in>set order. lookup obs p))"
  by (induction order arbitrary: u r) auto

lemma snd_range_desired:
  "snd (range_desired obs order (u, r)) = (r \<or> (order \<noteq> [] \<and> lookup obs (hd order)))"
  by (induction order arbitrary: u r) auto

lemma check_atProvider_eq:
  "check_atProvider desired ps u = (u \<and> (\<forall>p\<in>set ps. lookup desired p))"
  by (induction ps arbitrary: u) auto

lemma grant_Observe_run:
  assumes "gp_Role (grant_ForProvider cr) = Some role"
    and "gp_Keyspace (grant_ForProvider cr) = Some keyspace"
    and "QueryFunc db log (grant_query keyspace) [role] = Inr iter"
  shows "grant_Observe db order (GrantCR cr) log =
     (Return \<lparr>ResourceExists = snd (range_desired (scan_permissions iter Map.empty) order (True, False)),
              ResourceUpToDate =
                check_atProvider (set_true Map.empty (replaceUnderscoreWithSpace (gp_Privileges (grant_ForProvider cr))))
                  (grant_AtProvider_Privileges cr)
                  (fst (range_desired (scan_permissions iter Map.empty) order (True, False))),
              ResourceLateInitialized = False\<rparr> None,
      GrantCR
        ((if snd (range_desired (scan_permissions iter Map.empty) order (True, False))
          then (\<lambda>c. c\<lparr>grant_Conditions := SetConditions Available (grant_Conditions c)\<rparr>) else (\<lambda>c. c))
         (if check_atProvider (set_true Map.empty (replaceUnderscoreWithSpace (gp_Privileges (grant_ForProvider cr))))
                  (grant_AtProvider_Privileges cr)
                  (fst (range_desired (scan_permissions iter Map.empty) order (True, False)))
          then cr\<lparr>grant_AtProvider_Privileges := replaceUnderscoreWithSpace (gp_Privileges (grant_ForProvider cr))\<rparr>
          else cr)),
      log @ [QueryCall (grant_query keyspace) [role]])"
  using assms by (simp add: grant_Observe_def Query_def split_beta Let_def)

text \<open>
  C3. For a Grant whose role and keyspace are set and whose permission query succeeds,
  Observe reports upToDate = true exactly when every normalized desired privilege is among
  the observed permissions and every privilege recorded in the status is among the
  normalized desired ones, whatever the order in which the runtime visits the desired
  permissions; and when upToDate is true the status privileges are afterwards exactly the
  normalized desired list.
\<close>

theorem grant_observe_upToDate:
  assumes "gp_Role (grant_ForProvider cr) = Some role"
    and "gp_Keyspace (grant_ForProvider cr) = Some keyspace"
    and "QueryFunc db log (grant_query keyspace) [role] = Inr iter"
    and "observedPermissions = scan_permissions iter Map.empty"
    and "privileges = replaceUnderscoreWithSpace (gp_Privileges (grant_ForProvider cr))"
    and "range_order (set_true Map.empty privileges) order"
  shows "\<exists>observation cr'.
           grant_Observe db order (GrantCR cr) log =
             (Return observation None, GrantCR cr', log @ [QueryCall (grant_query keyspace) [role]])
           \<and> ResourceUpToDate observation =
               ((\<forall>p\<in>set privileges. lookup observedPermissions p)
                \<and> (\<forall>p\<in>set (grant_AtProvider_Privileges cr). p \<in> set privileges))
           \<and> (ResourceUpToDate observation \<longrightarrow> grant_AtProvider_Privileges cr' = privileges)"
proof -
  have ord: "set order = set privileges"
    using assms(6) by (simp add: range_order_def dom_set_true)
  have utd: "check_atProvider (set_true Map.empty privileges) (grant_AtProvider_Privileges cr)
               (fst (range_desired observedPermissions order (True, False)))
             = ((\<forall>p\<in>set privileges. lookup observedPermissions p)
                \<and> (\<forall>p\<in>set (grant_AtProvider_Privileges cr). p \<in> set privileges))"
    by (simp add: check_atProvider_eq fst_range_desired ord lookup_set_true lookup_empty)
  show ?thesis
    unfolding grant_Observe_run [OF assms(1-3)]
    using utd assms(4,5) by auto
qed

theorem grant_observe_upToDate_witness:
  "\<exists>observation cr'.
     grant_Observe (permissionsDB [[''SELECT'', ''ALL PERMISSIONS'']]) [''ALL PERMISSIONS'', ''SELECT'']
         (GrantCR (exampleGrant [''SELECT'', ''ALL_PERMISSIONS''] [''SELECT''])) [] =
       (Return observation None, GrantCR cr', [QueryCall (grant_query ''example_keyspace'') [''example_role'']])
     \<and> ResourceUpToDate observation
     \<and> grant_AtProvider_Privileges cr' = [''SELECT'', ''ALL PERMISSIONS'']"
proof -
  let ?cr = "exampleGrant [''SELECT'', ''ALL_PERMISSIONS''] [''SELECT'']"
  have r: "gp_Role (grant_ForProvider ?cr) = Some ''example_role''"
    by (simp add: exampleGrant_def)
  have k: "gp_Keyspace (grant_ForProvider ?cr) = Some ''example_keyspace''"
    by (simp add: exampleGrant_def)
  have q: "QueryFunc (permissionsDB [[''SELECT'', ''ALL PERMISSIONS'']]) []
             (grant_query ''example_keyspace'') [''example_role''] = Inr [[TextList [''SELECT'', ''ALL PERMISSIONS'']]]"
    by (simp add: permissionsDB_def)
  have p: "replaceUnderscoreWithSpace (gp_Privileges (grant_ForProvider ?cr)) = [''SELECT'', ''ALL PERMISSIONS'']"
    by (simp add: exampleGrant_def replaceUnderscoreWithSpace_def)
  have o: "range_order (set_true Map.empty (replaceUnderscoreWithSpace (gp_Privileges (grant_ForProvider ?cr))))
             [''ALL PERMISSIONS'', ''SELECT'']"
    unfolding p by (auto simp: range_order_def)
  have a: "grant_AtProvider_Privileges ?cr = [''SELECT'']"
    by (simp add: exampleGrant_def)
  show ?thesis
    using grant_observe_upToDate [OF r k q refl refl o]
    unfolding p a by (simp add: ScanStrings_def lookup_def) blast
qed

text \<open>
  C2. Observe is to report exists = true exactly when some normalized desired privilege is
  among the observed permissions. The loop over the desired permissions leaves at the
  first one that was not observed, so with SELECT and MODIFY desired and only SELECT
  observed the answer follows the order of the visit: exists = false when MODIFY comes
  first, exists = true when SELECT comes first.
\<close>

theorem grant_observe_exists_follows_range_order:
  "range_order (set_true Map.empty (replaceUnderscoreWithSpace [''SELECT'', ''MODIFY''])) [''MODIFY'', ''SELECT'']
   \<and> lookup (scan_permissions [[TextList [''SELECT'']]] Map.empty) ''SELECT''
   \<and> fst (grant_Observe (permissionsDB [[''SELECT'']]) [''MODIFY'', ''SELECT'']
             (GrantCR (exampleGrant [''SELECT'', ''MODIFY''] [])) []) =
       Return \<lparr>ResourceExists = False, ResourceUpToDate = False, ResourceLateInitialized = False\<rparr> None
   \<and> fst (grant_Observe (permissionsDB [[''SELECT'']]) [''SELECT'', ''MODIFY'']
             (GrantCR (exampleGrant [''SELECT'', ''MODIFY''] [])) []) =
       Return \<lparr>ResourceExists = True, ResourceUpToDate = False, ResourceLateInitialized = False\<rparr> None"
proof -
  let ?cr = "exampleGrant [''SELECT'', ''MODIFY''] []"
  have p: "replaceUnderscoreWithSpace [''SELECT'', ''MODIFY''] = [''SELECT'', ''MODIFY'']"
    by (simp add: replaceUnderscoreWithSpace_def)
  have o: "range_order (set_true Map.empty (replaceUnderscoreWithSpace [''SELECT'', ''MODIFY''])) [''MODIFY'', ''SELECT'']"
    unfolding p by (auto simp: range_order_def)
  have l: "lookup (scan_permissions [[TextList [''SELECT'']]] Map.empty) ''SELECT''"
    by (simp add: ScanStrings_def lookup_def)
  have r: "gp_Role (grant_ForProvider ?cr) = Some ''example_role''"
    by (simp add: exampleGrant_def)
  have k: "gp_Keyspace (grant_ForProvider ?cr) = Some ''example_keyspace''"
    by (simp add: exampleGrant_def)
  have q: "QueryFunc (permissionsDB [[''SELECT'']]) []
             (grant_query ''example_keyspace'') [''example_role''] = Inr [[TextList [''SELECT'']]]"
    by (simp add: permissionsDB_def)
  have g: "gp_Privileges (grant_ForProvider ?cr) = [''SELECT'', ''MODIFY'']"
      "grant_AtProvider_Privileges ?cr = []"
    by (simp_all add: exampleGrant_def)
  have e1: "fst (grant_Observe (permissionsDB [[''SELECT'']]) [''MODIFY'', ''SELECT''] (GrantCR ?cr) []) =
       Return \<lparr>ResourceExists = False, ResourceUpToDate = False, ResourceLateInitialized = False\<rparr> None"
    unfolding grant_Observe_run [OF r k q] g p
    by (simp add: ScanStrings_def lookup_def)
  have e2: "fst (grant_Observe (permissionsDB [[''SELECT'']]) [''SELECT'', ''MODIFY''] (GrantCR ?cr) []) =
       Return \<lparr>ResourceExists = True, ResourceUpToDate = False, ResourceLateInitialized = False\<rparr> None"
    unfolding grant_Observe_run [OF r k q] g p
    by (simp add: ScanStrings_def lookup_def)
  from o l e1 e2 show ?thesis by blast
qed

text \<open>
  C10. For every Grant, an Observe that returns reports lateInitialized = false; Observe
  never changes the desired parameters, the only fields of the object that may differ
  afterwards are the status privileges and the status conditions, and the status
  privileges differ only when Observe returned upToDate = true without an error.
\<close>

theorem grant_observe_frame:
  "\<exists>out cr' log'.
     grant_Observe db order (GrantCR cr) log = (out, GrantCR cr', log')
     \<and> grant_ForProvider cr' = grant_ForProvider cr
     \<and> cr' = cr\<lparr>grant_AtProvider_Privileges := grant_AtProvider_Privileges cr',
                 grant_Conditions := grant_Conditions cr'\<rparr>
     \<and> (\<forall>observation err. out = Return observation err \<longrightarrow> \<not> ResourceLateInitialized observation)
     \<and> (grant_AtProvider_Privileges cr' \<noteq> grant_AtProvider_Privileges cr
          \<longrightarrow> (\<exists>observation. out = Return observation None \<and> ResourceUpToDate observation))"
proof (cases "gp_Role (grant_ForProvider cr)")
  case None
  then show ?thesis by (simp add: grant_Observe_def)
next
  case (Some role)
  note r = this
  show ?thesis
  proof (cases "gp_Keyspace (grant_ForProvider cr)")
    case None
    then show ?thesis using r by (simp add: grant_Observe_def)
  next
    case (Some keyspace)
    note k = this
    show ?thesis
    proof (cases "QueryFunc db log (grant_query keyspace) [role]")
      case (Inl err)
      then show ?thesis using r k
        by (simp add: grant_Observe_def Query_def zeroObservation_def)
    next
      case (Inr iter)
      show ?thesis
        unfolding grant_Observe_run [OF r k Inr] by simp
    qed
  qed
qed

theorem grant_observe_frame_witness:
  "\<exists>out cr' log'.
     grant_Observe (permissionsDB [[''SELECT'']]) [''SELECT''] (GrantCR (exampleGrant [''SELECT''] [])) [] =
       (out, GrantCR cr', log')
     \<and> grant_ForProvider cr' = grant_ForProvider (exampleGrant [''SELECT''] [])
     \<and> out = Return \<lparr>ResourceExists = True, ResourceUpToDate = True, ResourceLateInitialized = False\<rparr> None
     \<and> grant_AtProvider_Privileges cr' = [''SELECT'']
     \<and> grant_AtProvider_Privileges cr' \<noteq> grant_AtProvider_Privileges (exampleGrant [''SELECT''] [])"
  using grant_observe_frame [of "permissionsDB [[''SELECT'']]" "[''SELECT'']" "exampleGrant [''SELECT''] []" "[]"]
  by (simp add: grant_Observe_def Query_def permissionsDB_def exampleGrant_def
        replaceUnderscoreWithSpace_def ScanStrings_def lookup_def)

lemma create_loop_first_failure:
  "k < length ps
   \<Longrightarrow> \<forall>i<k. ExecFunc db (log @ map (\<lambda>p. ExecCall (grantStatement escape keyspace role p)) (take i ps))
              (grantStatement escape keyspace role (ps ! i)) = None
   \<Longrightarrow> ExecFunc db (log @ map (\<lambda>p. ExecCall (grantStatement escape keyspace role p)) (take k ps))
              (grantStatement escape keyspace role (ps ! k)) = Some e
   \<Longrightarrow> create_loop escape db keyspace role ps log =
         (Some e, log @ map (\<lambda>p. ExecCall (grantStatement escape keyspace role p)) (take (Suc k) ps))"
proof (induction ps arbitrary: log k)
  case Nil
  then show ?case by simp
next
  case (Cons p ps)
  show ?case
  proof (cases k)
    case 0
    with Cons.prems show ?thesis by (simp add: Exec_def)
  next
    case (Suc j)
    have first: "ExecFunc db log (grantStatement escape keyspace role p) = None"
      using Cons.prems(2) Suc by (auto dest: spec [of _ 0])
    have len: "j < length ps"
      using Cons.prems(1) Suc by simp
    have before: "\<forall>i<j. ExecFunc db
            ((log @ [ExecCall (grantStatement escape keyspace role p)])
              @ map (\<lambda>p. ExecCall (grantStatement escape keyspace role p)) (take i ps))
            (grantStatement escape keyspace role (ps ! i)) = None"
      using Cons.prems(2) Suc by (auto dest: spec [of _ "Suc i" for i])
    have at: "ExecFunc db
            ((log @ [ExecCall (grantStatement escape keyspace role p)])
              @ map (\<lambda>p. ExecCall (grantStatement escape keyspace role p)) (take j ps))
            (grantStatement escape keyspace role (ps ! j)) = Some e"
      using Cons.prems(3) Suc by simp
    show ?thesis
      using Cons.IH [OF len before at] first Suc by (simp add: Exec_def)
  qed
qed

lemma update_grant_loop_first_failure:
  "k < length ps
   \<Longrightarrow> \<forall>i<k. ExecFunc db (log @ map (\<lambda>p. ExecCall (grantStatement escape keyspace role p)) (take i ps))
              (grantStatement escape keyspace role (ps ! i)) = None
   \<Longrightarrow> ExecFunc db (log @ map (\<lambda>p. ExecCall (grantStatement escape keyspace role p)) (take k ps))
              (grantStatement escape keyspace role (ps ! k)) = Some e
   \<Longrightarrow> fst (update_grant_loop escape db keyspace role ps m log) = Some e
       \<and> snd (snd (update_grant_loop escape db keyspace role ps m log)) =
           log @ map (\<lambda>p. ExecCall (grantStatement escape keyspace role p)) (take (Suc k) ps)"
proof (induction ps arbitrary: log k m)
  case Nil
  then show ?case by simp
next
  case (Cons p ps)
  show ?case
  proof (cases k)
    case 0
    with Cons.prems show ?thesis by (simp add: Exec_def)
  next
    case (Suc j)
    have first: "ExecFunc db log (grantStatement escape keyspace role p) = None"
      using Cons.prems(2) Suc by (auto dest: spec [of _ 0])
    have len: "j < length ps"
      using Cons.prems(1) Suc by simp
    have before: "\<forall>i<j. ExecFunc db
            ((log @ [ExecCall (grantStatement escape keyspace role p)])
              @ map (\<lambda>p. ExecCall (grantStatement escape keyspace role p)) (take i ps))
            (grantStatement escape keyspace role (ps ! i)) = None"
      using Cons.prems(2) Suc by (auto dest: spec [of _ "Suc i" for i])
    have at: "ExecFunc db
            ((log @ [ExecCall (grantStatement escape keyspace role p)])
              @ map (\<lambda>p. ExecCall (grantStatement escape keyspace role p)) (take j ps))
            (grantStatement escape keyspace role (ps ! j)) = Some e"
      using Cons.prems(3) Suc by simp
    have step: "update_grant_loop escape db keyspace role (p # ps) m log =
                update_grant_loop escape db keyspace role ps (m(p \<mapsto> True))
                  (log @ [ExecCall (grantStatement escape keyspace role p)])"
      using first by (simp add: Exec_def)
    show ?thesis
      unfolding step using Cons.IH [OF len before at] Suc by simp
  qed
qed

lemma update_grant_loop_success:
  "update_grant_loop escape db keyspace role ps m log = (None, m', log')
   \<Longrightarrow> m' = set_true m ps
       \<and> log' = log @ map (\<lambda>p. ExecCall (grantStatement escape keyspace role p)) ps"
proof (induction ps arbitrary: m log)
  case Nil
  then show ?case by simp
next
  case (Cons p ps)
  from Cons.prems have rec:
    "update_grant_loop escape db keyspace role ps (m(p \<mapsto> True))
       (log @ [ExecCall (grantStatement escape keyspace role p)]) = (None, m', log')"
    by (cases "ExecFunc db log (grantStatement escape keyspace role p)") (simp_all add: Exec_def)
  have "m' = set_true m (p # ps)"
    using Cons.IH [OF rec] by (simp only: set_true.simps)
  moreover have "log' = log @ map (\<lambda>p. ExecCall (grantStatement escape keyspace role p)) (p # ps)"
    using conjunct2 [OF Cons.IH [OF rec]] by simp
  ultimately show ?case by (rule conjI)
qed

lemma update_revoke_loop_success:
  "update_revoke_loop escape db keyspace role desired ps log = (None, log')
   \<Longrightarrow> log' = log @ map (\<lambda>p. ExecCall (revokeStatement escape keyspace role p))
                        (filter (\<lambda>p. \<not> lookup desired p) ps)"
proof (induction ps arbitrary: log)
  case Nil
  then show ?case by simp
next
  case (Cons p ps)
  show ?case
  proof (cases "lookup desired p")
    case True
    with Cons.prems have rec:
      "update_revoke_loop escape db keyspace role desired ps log = (None, log')"
      by simp
    from Cons.IH [OF rec] True show ?thesis by simp
  next
    case False
    with Cons.prems have rec:
      "update_revoke_loop escape db keyspace role desired ps
         (log @ [ExecCall (revokeStatement escape keyspace role p)]) = (None, log')"
      by (cases "ExecFunc db log (revokeStatement escape keyspace role p)") (simp_all add: Exec_def)
    from Cons.IH [OF rec] False show ?thesis by simp
  qed
qed

lemma grant_Update_error_keeps_object:
  "grant_Update escape db (GrantCR cr) log = (Return u (Some err), mg', log') \<Longrightarrow> mg' = GrantCR cr"
  by (auto simp: grant_Update_def Let_def split: option.splits prod.splits)

lemma grant_Create_keeps_object:
  "grant_Create escape db (GrantCR cr) log = (out, mg', log') \<Longrightarrow> mg' = GrantCR cr"
  by (auto simp: grant_Create_def Let_def split: option.splits prod.splits)


text \<open>
  C1. For a Grant with desired privileges D and status privileges S, let N be D with every
  underscore of every privilege replaced by a space. An Update that returns without error
  has issued one GRANT for each privilege of N, in order, then one REVOKE for each
  privilege of S that is not among N, and nothing else; afterwards the status privileges
  are N, which holds no underscore. With S = [MODIFY] and D = [SELECT] these are exactly
  one GRANT SELECT and one REVOKE MODIFY, and the status ends as [SELECT].
\<close>

theorem grant_update_converges:
  assumes "grant_Update escape db (GrantCR cr) log = (Return u None, mg', log')"
    and "gp_Role (grant_ForProvider cr) = Some role"
    and "gp_Keyspace (grant_ForProvider cr) = Some keyspace"
    and "D = gp_Privileges (grant_ForProvider cr)"
    and "S = grant_AtProvider_Privileges cr"
    and "N = map (map (\<lambda>c. if c = CHR ''_'' then CHR '' '' else c)) D"
  shows \<open>log' = log @ map (\<lambda>p. ExecCall (grantStatement escape keyspace role p)) N
                    @ map (\<lambda>p. ExecCall (revokeStatement escape keyspace role p))
                        (filter (\<lambda>p. p \<notin> set N) S)
         \<and> mg' = GrantCR (cr\<lparr>grant_AtProvider_Privileges := N\<rparr>)
         \<and> (\<forall>p\<in>set N. CHR ''_'' \<notin> set p)
         \<and> (D = [''SELECT''] \<and> S = [''MODIFY''] \<longrightarrow>
              log' = log @ [ExecCall (''GRANT SELECT ON KEYSPACE "'' @ escape keyspace @ ''" TO "''
                                        @ escape role @ ''"''),
                            ExecCall (''REVOKE MODIFY ON KEYSPACE "'' @ escape keyspace @ ''" FROM "''
                                        @ escape role @ ''"'')]
              \<and> mg' = GrantCR (cr\<lparr>grant_AtProvider_Privileges := [''SELECT'']\<rparr>))\<close>
proof -
  have norm: "N = replaceUnderscoreWithSpace (gp_Privileges (grant_ForProvider cr))"
    using assms(4,6) by (simp add: replaceUnderscoreWithSpace_def)
  obtain x m1 log1 where g: "update_grant_loop escape db keyspace role N Map.empty log = (x, m1, log1)"
    by (cases "update_grant_loop escape db keyspace role N Map.empty log") auto
  have x: "x = None"
    using assms(1-3) g norm by (cases x) (auto simp: grant_Update_def)
  obtain y log2 where r: "update_revoke_loop escape db keyspace role m1 S log1 = (y, log2)"
    by (cases "update_revoke_loop escape db keyspace role m1 S log1") auto
  have y: "y = None"
    using assms(1-3) g x r norm assms(5) by (cases y) (auto simp: grant_Update_def)
  have res: "mg' = GrantCR (cr\<lparr>grant_AtProvider_Privileges := N\<rparr>)" "log' = log2"
    using assms(1-3) g x r y norm assms(5) by (auto simp: grant_Update_def)
  have m1: "m1 = set_true Map.empty N"
    and log1: "log1 = log @ map (\<lambda>p. ExecCall (grantStatement escape keyspace role p)) N"
    using update_grant_loop_success [OF g [unfolded x]] by simp_all
  have log2: "log2 = log1 @ map (\<lambda>p. ExecCall (revokeStatement escape keyspace role p))
                              (filter (\<lambda>p. \<not> lookup m1 p) S)"
    using update_revoke_loop_success [OF r [unfolded y]] .
  have flt: "filter (\<lambda>p. \<not> lookup m1 p) S = filter (\<lambda>p. p \<notin> set N) S"
    unfolding m1 by (simp add: lookup_set_true lookup_empty)
  have all: "log' = log @ map (\<lambda>p. ExecCall (grantStatement escape keyspace role p)) N
                    @ map (\<lambda>p. ExecCall (revokeStatement escape keyspace role p))
                        (filter (\<lambda>p. p \<notin> set N) S)"
    using res(2) log2 log1 flt by simp
  have clean: "\<forall>p\<in>set N. CHR ''_'' \<notin> set p"
    unfolding assms(6) by auto
  have inst: \<open>D = [''SELECT''] \<and> S = [''MODIFY''] \<longrightarrow>
              log' = log @ [ExecCall (''GRANT SELECT ON KEYSPACE "'' @ escape keyspace @ ''" TO "''
                                        @ escape role @ ''"''),
                            ExecCall (''REVOKE MODIFY ON KEYSPACE "'' @ escape keyspace @ ''" FROM "''
                                        @ escape role @ ''"'')]
              \<and> mg' = GrantCR (cr\<lparr>grant_AtProvider_Privileges := [''SELECT'']\<rparr>)\<close>
  proof
    assume ds: "D = [''SELECT''] \<and> S = [''MODIFY'']"
    then have n: "N = [''SELECT'']"
      using assms(6) by simp
    show \<open>log' = log @ [ExecCall (''GRANT SELECT ON KEYSPACE "'' @ escape keyspace @ ''" TO "''
                                        @ escape role @ ''"''),
                            ExecCall (''REVOKE MODIFY ON KEYSPACE "'' @ escape keyspace @ ''" FROM "''
                                        @ escape role @ ''"'')]
              \<and> mg' = GrantCR (cr\<lparr>grant_AtProvider_Privileges := [''SELECT'']\<rparr>)\<close>
      using all res(1) ds unfolding n
      by (simp add: grantStatement_def revokeStatement_def QuoteIdentifier_def)
  qed
  from all res(1) clean inst show ?thesis by blast
qed

theorem grant_update_converges_witness:
  \<open>grant_Update (\<lambda>s. s) notFoundDB
       (GrantCR (exampleGrant [''ALL_PERMISSIONS'', ''SELECT''] [''MODIFY'', ''ALL PERMISSIONS''])) [] =
     (Return (ExternalUpdate []) None,
      GrantCR (exampleGrant [''ALL_PERMISSIONS'', ''SELECT''] [''ALL PERMISSIONS'', ''SELECT'']),
      [ExecCall ''GRANT ALL PERMISSIONS ON KEYSPACE "example_keyspace" TO "example_role"'',
       ExecCall ''GRANT SELECT ON KEYSPACE "example_keyspace" TO "example_role"'',
       ExecCall ''REVOKE MODIFY ON KEYSPACE "example_keyspace" FROM "example_role"''])
   \<and> grant_Update (\<lambda>s. s) notFoundDB (GrantCR (exampleGrant [''SELECT''] [''MODIFY''])) [] =
     (Return (ExternalUpdate []) None,
      GrantCR (exampleGrant [''SELECT''] [''SELECT'']),
      [ExecCall ''GRANT SELECT ON KEYSPACE "example_keyspace" TO "example_role"'',
       ExecCall ''REVOKE MODIFY ON KEYSPACE "example_keyspace" FROM "example_role"''])\<close>
proof -
  let ?cr1 = "exampleGrant [''ALL_PERMISSIONS'', ''SELECT''] [''MODIFY'', ''ALL PERMISSIONS'']"
  let ?run1 = "grant_Update (\<lambda>s. s) notFoundDB (GrantCR ?cr1) []"
  let ?cr2 = "exampleGrant [''SELECT''] [''MODIFY'']"
  let ?run2 = "grant_Update (\<lambda>s. s) notFoundDB (GrantCR ?cr2) []"
  have out1: "fst ?run1 = Return (ExternalUpdate []) None"
    by (simp add: grant_Update_def exampleGrant_def notFoundDB_def replaceUnderscoreWithSpace_def
          Exec_def lookup_def Let_def)
  have run1: "?run1 = (Return (ExternalUpdate []) None, fst (snd ?run1), snd (snd ?run1))"
    using out1 by (simp add: prod_eq_iff)
  have out2: "fst ?run2 = Return (ExternalUpdate []) None"
    by (simp add: grant_Update_def exampleGrant_def notFoundDB_def replaceUnderscoreWithSpace_def
          Exec_def lookup_def Let_def)
  have run2: "?run2 = (Return (ExternalUpdate []) None, fst (snd ?run2), snd (snd ?run2))"
    using out2 by (simp add: prod_eq_iff)
  have r1: "gp_Role (grant_ForProvider ?cr1) = Some ''example_role''"
    and k1: "gp_Keyspace (grant_ForProvider ?cr1) = Some ''example_keyspace''"
    and d1: "[''ALL_PERMISSIONS'', ''SELECT''] = gp_Privileges (grant_ForProvider ?cr1)"
    and s1: "[''MODIFY'', ''ALL PERMISSIONS''] = grant_AtProvider_Privileges ?cr1"
    by (simp_all add: exampleGrant_def)
  have r2: "gp_Role (grant_ForProvider ?cr2) = Some ''example_role''"
    and k2: "gp_Keyspace (grant_ForProvider ?cr2) = Some ''example_keyspace''"
    and d2: "[''SELECT''] = gp_Privileges (grant_ForProvider ?cr2)"
    and s2: "[''MODIFY''] = grant_AtProvider_Privileges ?cr2"
    by (simp_all add: exampleGrant_def)
  have rest1: \<open>snd (snd ?run1) =
                [ExecCall ''GRANT ALL PERMISSIONS ON KEYSPACE "example_keyspace" TO "example_role"'',
                 ExecCall ''GRANT SELECT ON KEYSPACE "example_keyspace" TO "example_role"'',
                 ExecCall ''REVOKE MODIFY ON KEYSPACE "example_keyspace" FROM "example_role"'']
              \<and> fst (snd ?run1) =
                 GrantCR (exampleGrant [''ALL_PERMISSIONS'', ''SELECT''] [''ALL PERMISSIONS'', ''SELECT''])\<close>
    using grant_update_converges [OF run1 r1 k1 d1 s1 refl]
    by (simp add: exampleGrant_def grantStatement_def revokeStatement_def QuoteIdentifier_def)
  have rest2: \<open>snd (snd ?run2) =
                [ExecCall ''GRANT SELECT ON KEYSPACE "example_keyspace" TO "example_role"'',
                 ExecCall ''REVOKE MODIFY ON KEYSPACE "example_keyspace" FROM "example_role"'']
              \<and> fst (snd ?run2) = GrantCR (exampleGrant [''SELECT''] [''SELECT''])\<close>
    using grant_update_converges [OF run2 r2 k2 d2 s2 refl]
    by (simp add: exampleGrant_def grantStatement_def revokeStatement_def QuoteIdentifier_def)
  from out1 rest1 out2 rest2 show ?thesis
    by (simp add: prod_eq_iff)
qed

text \<open>
  C9. For a Grant, when the GRANT for the privilege at position k is the first statement
  the database rejects, Create and Update both return at once with that error wrapped in
  the creation label; the calls made are the GRANTs up to and including the rejected one,
  so no further GRANT, no REVOKE and no statement undoing the earlier grants is issued,
  and the object is left as it was. Create never changes the object, and an Update that
  returns any error, from either phase, leaves the status privileges unchanged.
\<close>

theorem grant_first_failure_aborts:
  assumes "gp_Role (grant_ForProvider cr) = Some role"
    and "gp_Keyspace (grant_ForProvider cr) = Some keyspace"
    and "privileges = replaceUnderscoreWithSpace (gp_Privileges (grant_ForProvider cr))"
    and "k < length privileges"
    and "\<forall>i<k. ExecFunc db
                  (log @ map (\<lambda>p. ExecCall (grantStatement escape keyspace role p)) (take i privileges))
                  (grantStatement escape keyspace role (privileges ! i)) = None"
    and "ExecFunc db
           (log @ map (\<lambda>p. ExecCall (grantStatement escape keyspace role p)) (take k privileges))
           (grantStatement escape keyspace role (privileges ! k)) = Some e"
  shows "grant_Create escape db (GrantCR cr) log =
           (Return (ExternalCreation []) (Some (Wrap e errGrantCreate)), GrantCR cr,
            log @ map (\<lambda>p. ExecCall (grantStatement escape keyspace role p)) (take (Suc k) privileges))
         \<and> grant_Update escape db (GrantCR cr) log =
           (Return (ExternalUpdate []) (Some (Wrap e errGrantCreate)), GrantCR cr,
            log @ map (\<lambda>p. ExecCall (grantStatement escape keyspace role p)) (take (Suc k) privileges))
         \<and> (\<forall>db' log0 out mg' log'.
               grant_Create escape db' (GrantCR cr) log0 = (out, mg', log') \<longrightarrow> mg' = GrantCR cr)
         \<and> (\<forall>db' log0 u err mg' log'.
               grant_Update escape db' (GrantCR cr) log0 = (Return u (Some err), mg', log')
               \<longrightarrow> mg' = GrantCR cr)"
proof -
  have c: "grant_Create escape db (GrantCR cr) log =
           (Return (ExternalCreation []) (Some (Wrap e errGrantCreate)), GrantCR cr,
            log @ map (\<lambda>p. ExecCall (grantStatement escape keyspace role p)) (take (Suc k) privileges))"
    using assms(1-3) create_loop_first_failure [OF assms(4-6)]
    by (simp add: grant_Create_def)
  obtain x m1 log1 where g:
    "update_grant_loop escape db keyspace role privileges Map.empty log = (x, m1, log1)"
    by (cases "update_grant_loop escape db keyspace role privileges Map.empty log") auto
  have x: "x = Some e"
    and log1: "log1 = log @ map (\<lambda>p. ExecCall (grantStatement escape keyspace role p)) (take (Suc k) privileges)"
    using update_grant_loop_first_failure [OF assms(4-6), of Map.empty] g by simp_all
  have u: "grant_Update escape db (GrantCR cr) log =
           (Return (ExternalUpdate []) (Some (Wrap e errGrantCreate)), GrantCR cr,
            log @ map (\<lambda>p. ExecCall (grantStatement escape keyspace role p)) (take (Suc k) privileges))"
    using assms(1-3) g x log1 by (simp add: grant_Update_def)
  from c u show ?thesis
    using grant_Create_keeps_object grant_Update_error_keeps_object by blast
qed

theorem grant_first_failure_aborts_witness:
  \<open>grant_Create (\<lambda>s. s) (failingDB 1 (New ''boom'')) (GrantCR (exampleGrant [''SELECT'', ''ALL_PERMISSIONS'', ''ALTER''] [''MODIFY''])) [] =
     (Return (ExternalCreation []) (Some (Wrap (New ''boom'') errGrantCreate)),
      GrantCR (exampleGrant [''SELECT'', ''ALL_PERMISSIONS'', ''ALTER''] [''MODIFY'']),
      [ExecCall ''GRANT SELECT ON KEYSPACE "example_keyspace" TO "example_role"'',
       ExecCall ''GRANT ALL PERMISSIONS ON KEYSPACE "example_keyspace" TO "example_role"''])
   \<and> grant_Update (\<lambda>s. s) (failingDB 1 (New ''boom'')) (GrantCR (exampleGrant [''SELECT'', ''ALL_PERMISSIONS'', ''ALTER''] [''MODIFY''])) [] =
     (Return (ExternalUpdate []) (Some (Wrap (New ''boom'') errGrantCreate)),
      GrantCR (exampleGrant [''SELECT'', ''ALL_PERMISSIONS'', ''ALTER''] [''MODIFY'']),
      [ExecCall ''GRANT SELECT ON KEYSPACE "example_keyspace" TO "example_role"'',
       ExecCall ''GRANT ALL PERMISSIONS ON KEYSPACE "example_keyspace" TO "example_role"''])\<close>
proof -
  let ?cr = "exampleGrant [''SELECT'', ''ALL_PERMISSIONS'', ''ALTER''] [''MODIFY'']"
  let ?ps = "[''SELECT'', ''ALL PERMISSIONS'', ''ALTER'']"
  have r: "gp_Role (grant_ForProvider ?cr) = Some ''example_role''"
    and k: "gp_Keyspace (grant_ForProvider ?cr) = Some ''example_keyspace''"
    by (simp_all add: exampleGrant_def)
  have p: "?ps = replaceUnderscoreWithSpace (gp_Privileges (grant_ForProvider ?cr))"
    by (simp add: exampleGrant_def replaceUnderscoreWithSpace_def)
  have l: "(1::nat) < length ?ps"
    by simp
  have b: "\<forall>i<1. ExecFunc (failingDB 1 (New ''boom''))
                  ([] @ map (\<lambda>p. ExecCall (grantStatement (\<lambda>s. s) ''example_keyspace'' ''example_role'' p)) (take i ?ps))
                  (grantStatement (\<lambda>s. s) ''example_keyspace'' ''example_role'' (?ps ! i)) = None"
    by (simp add: failingDB_def)
  have a: "ExecFunc (failingDB 1 (New ''boom''))
                  ([] @ map (\<lambda>p. ExecCall (grantStatement (\<lambda>s. s) ''example_keyspace'' ''example_role'' p)) (take 1 ?ps))
                  (grantStatement (\<lambda>s. s) ''example_keyspace'' ''example_role'' (?ps ! 1)) = Some (New ''boom'')"
    by (simp add: failingDB_def)
  show ?thesis
    using grant_first_failure_aborts [OF r k p l b a]
    by (simp add: grantStatement_def QuoteIdentifier_def)
qed

end
